theory Spec2Isabelle
  imports Complex_Main "HOL-Library.AList"
begin

section \<open>Python values, exceptions and dictionaries\<close>

text \<open>
  The exceptions the two source files can meet. \<open>ZeroDivisionError\<close> comes from the
  divisions by \<open>len(...)\<close> and from \<open>batch_idx % self.log_step\<close>; \<open>TypeError\<close> from
  iterating over a validation loader that is \<open>None\<close>; \<open>NotImplementedError\<close> is the
  class that \<open>BaseLogger.log\<close> mentions. \<open>EmptyDataSourceError\<close> is the error named by
  the specification's taxonomy; no statement of the source raises it.
\<close>

datatype py_error = ZeroDivisionError | TypeError | NotImplementedError | EmptyDataSourceError

text \<open>What a call can hand back as an ordinary value: a float, a list of floats
  (\<open>ndarray.tolist()\<close>), or an exception class used as an object.\<close>

datatype py_value = Float real | FloatList "real list" | ExceptionClass py_error

text \<open>
  A Python \<open>dict\<close> keeps its keys in insertion order and holds each key once: an
  association list with distinct keys. \<open>d[k] = v\<close> replaces the value in place when the
  key is present and appends the pair otherwise; \<open>{**a, **b}\<close> copies \<open>a\<close> and then
  stores the items of \<open>b\<close> in their order.
\<close>

type_synonym ('k, 'v) dict = "('k \<times> 'v) list"

definition dict_setitem :: "'k \<Rightarrow> 'v \<Rightarrow> ('k, 'v) dict \<Rightarrow> ('k, 'v) dict" where
  "dict_setitem k v d = AList.update k v d"

definition dict_len :: "('k, 'v) dict \<Rightarrow> int" where
  "dict_len d = int (length d)"

definition dict_get :: "('k, 'v) dict \<Rightarrow> 'k \<Rightarrow> 'v option" where
  "dict_get d k = map_of d k"

definition dict_merge :: "('k, 'v) dict \<Rightarrow> ('k, 'v) dict \<Rightarrow> ('k, 'v) dict" where
  "dict_merge a b = foldl (\<lambda>d kv. dict_setitem (fst kv) (snd kv) d) a b"

text \<open>\<open>a / n\<close> for a number \<open>a\<close> and an integer length \<open>n\<close>: Python raises on \<open>n = 0\<close>.\<close>

definition py_div :: "real \<Rightarrow> nat \<Rightarrow> py_error + real" where
  "py_div a n = (if n = 0 then Inl ZeroDivisionError else Inr (a / real n))"

section \<open>base/base\_logger.py\<close>

record 'e BaseLogger =
  entries :: "(int, 'e) dict"

definition BaseLogger_init :: "'e BaseLogger" where
  "BaseLogger_init = \<lparr>entries = []\<rparr>"

definition add_entry :: "'e \<Rightarrow> 'e BaseLogger \<Rightarrow> 'e BaseLogger" where
  "add_entry entry self = self\<lparr>entries := dict_setitem (dict_len (entries self) + 1) entry (entries self)\<rparr>"

text \<open>\<open>log\<close> is the statement \<open>return NotImplementedError\<close>: the call returns, and its
  value is the exception class.\<close>

definition BaseLogger_log :: "'e BaseLogger \<Rightarrow> py_error + py_value" where
  "BaseLogger_log self = Inr (ExceptionClass NotImplementedError)"

text \<open>A sequence of \<open>add_entry\<close> calls on one logger, first entry first.\<close>

definition add_entries :: "'e list \<Rightarrow> 'e BaseLogger \<Rightarrow> 'e BaseLogger" where
  "add_entries es self = foldl (\<lambda>lg e. add_entry e lg) self es"

section \<open>trainer/trainer.py: the objects the trainer works with\<close>

text \<open>A tensor wrapped by \<open>Variable\<close>, with the device it lives on.\<close>

record 'a Variable =
  tensor :: 'a
  cuda :: bool

text \<open>
  \<open>self.model\<close> together with the optimizer bound to its parameters: \<open>weights\<close> is
  everything the autograd library owns (parameters, their accumulated gradients, the
  optimizer's buffers); \<open>training\<close> is the flag set by \<open>model.train()\<close> and cleared by
  \<open>model.eval()\<close>; \<open>module_cuda\<close> is set by \<open>model.cuda()\<close>.
\<close>

record 'w Module =
  weights :: 'w
  training :: bool
  module_cuda :: bool

text \<open>A batch source: the batches it yields, in order, and its batch size.
  \<open>len(loader)\<close> is the number of batches.\<close>

record ('x, 't) DataLoader =
  batches :: "('x \<times> 't) list"
  loader_batch_size :: nat

definition len_loader :: "('x, 't) DataLoader \<Rightarrow> nat" where
  "len_loader dl = length (batches dl)"

text \<open>The arguments of one \<open>self.logger.info\<close> call of \<open>_train_epoch\<close>, in the order of
  the format string: epoch, examples so far, total examples, percentage, batch loss.\<close>

record progress_line =
  line_epoch :: int
  line_done :: nat
  line_total :: nat
  line_percent :: real
  line_loss :: real

text \<open>The keyword arguments of one \<open>self.viz.line\<close> call; an argument that is not
  passed is \<open>None\<close>.\<close>

record viz_line =
  line_X :: "int list option"
  line_Y :: "real list"
  line_win :: "nat option"
  line_update :: "string option"
  line_legend :: "string list"

text \<open>
  The chart sink is the sequence of calls it has received. A call without \<open>win\<close>
  opens a new window, whose handle is the position of that call; a call with \<open>win\<close>
  returns the handle it was given.
\<close>

definition viz_call :: "viz_line \<Rightarrow> viz_line list \<Rightarrow> nat \<times> viz_line list" where
  "viz_call c sink = ((case line_win c of None \<Rightarrow> length sink | Some h \<Rightarrow> h), sink @ [c])"

text \<open>
  The attributes of the trainer that an epoch only reads. Those set by the base
  trainer (not part of these sources) are taken as they come: the model's forward
  pass, the loss function with its scalar value and its backward pass, the optimizer's
  \<open>zero_grad\<close> and \<open>step\<close>, the metric functions, the conversion of outputs and
  targets to label arrays, and the flags \<open>with_cuda\<close>, \<open>verbosity\<close>, \<open>visualize\<close>.
  The forward pass, the loss and the metrics are functions of their arguments.
\<close>

record ('x, 't, 'o, 'l, 'w) Trainer =
  forward :: "'w Module \<Rightarrow> 'x Variable \<Rightarrow> 'o"
  loss :: "'o \<Rightarrow> 't Variable \<Rightarrow> real"
  backward :: "'w Module \<Rightarrow> 'x Variable \<Rightarrow> 't Variable \<Rightarrow> 'w"
  zero_grad :: "'w \<Rightarrow> 'w"
  step :: "'w \<Rightarrow> 'w"
  metrics :: "('l \<Rightarrow> 'l \<Rightarrow> real) list"
  argmax :: "'o \<Rightarrow> 'l"
  numpy :: "'t Variable \<Rightarrow> 'l"
  with_cuda :: bool
  verbosity :: int
  visualize :: bool
  batch_size :: nat
  data_loader :: "('x, 't) DataLoader"
  valid_data_loader :: "('x, 't) DataLoader option"
  valid :: bool
  log_step :: nat

text \<open>The attributes an epoch writes: the model, the lines given to the logger, the
  calls made on the chart sink, and the two window handles.\<close>

record 'w TrainerState =
  model :: "'w Module"
  logger :: "progress_line list"
  viz :: "viz_line list"
  plt_train_loss :: "nat option"
  plt_val_loss :: "nat option"

text \<open>\<open>int(np.sqrt(n))\<close> for a count \<open>n\<close>: the integer part of the square root.
  \<open>sqrt_upto n b\<close> finds the same number by search, as the largest \<open>k\<close> up to \<open>b\<close> whose
  square is at most \<open>n\<close>.\<close>

definition int_sqrt :: "nat \<Rightarrow> nat" where
  "int_sqrt n = nat \<lfloor>sqrt (real n)\<rfloor>"

fun sqrt_upto :: "nat \<Rightarrow> nat \<Rightarrow> nat" where
  "sqrt_upto n 0 = 0"
| "sqrt_upto n (Suc k) = (if Suc k * Suc k \<le> n then Suc k else sqrt_upto n k)"

text \<open>\<open>Trainer.__init__\<close>: \<open>base\<close> carries what the base trainer has set.\<close>

definition Trainer_init ::
  "('x, 't, 'o, 'l, 'w) Trainer \<Rightarrow> ('x, 't) DataLoader \<Rightarrow> ('x, 't) DataLoader option
    \<Rightarrow> ('x, 't, 'o, 'l, 'w) Trainer" where
  "Trainer_init base dl vdl =
     base\<lparr>batch_size := loader_batch_size dl,
          data_loader := dl,
          valid_data_loader := vdl,
          valid := (if vdl \<noteq> None then True else False),
          log_step := int_sqrt (loader_batch_size dl)\<rparr>"

definition TrainerState_init :: "'w Module \<Rightarrow> 'w TrainerState" where
  "TrainerState_init m = \<lparr>model = m, logger = [], viz = [], plt_train_loss = None, plt_val_loss = None\<rparr>"

section \<open>trainer/trainer.py: the methods\<close>

definition to_variable ::
  "('x, 't, 'o, 'l, 'w) Trainer \<Rightarrow> 'x \<times> 't \<Rightarrow> 'x Variable \<times> 't Variable" where
  "to_variable self dt =
     (let data = \<lparr>tensor = fst dt, cuda = False\<rparr>;
          target = \<lparr>tensor = snd dt, cuda = False\<rparr>
      in if with_cuda self then (data\<lparr>cuda := True\<rparr>, target\<lparr>cuda := True\<rparr>)
         else (data, target))"

text \<open>\<open>_eval_metrics\<close>: the loop \<open>acc_metrics[i] += metric(output, target)\<close>.\<close>

fun eval_metrics_loop ::
  "nat \<Rightarrow> ('l \<Rightarrow> 'l \<Rightarrow> real) list \<Rightarrow> 'l \<Rightarrow> 'l \<Rightarrow> real list \<Rightarrow> real list" where
  "eval_metrics_loop i [] output target acc_metrics = acc_metrics"
| "eval_metrics_loop i (metric # rest) output target acc_metrics =
     eval_metrics_loop (Suc i) rest output target
       (acc_metrics[i := acc_metrics ! i + metric output target])"

definition eval_metrics ::
  "('x, 't, 'o, 'l, 'w) Trainer \<Rightarrow> 'o \<Rightarrow> 't Variable \<Rightarrow> real list" where
  "eval_metrics self output target =
     (let acc_metrics = replicate (length (metrics self)) 0;
          target' = numpy self target;
          output' = argmax self output
      in eval_metrics_loop 0 (metrics self) output' target' acc_metrics)"

text \<open>Lines 61 to 63: \<open>self.model.train()\<close>, then \<open>self.model.cuda()\<close> under
  \<open>with_cuda\<close>. Line 120: \<open>self.model.eval()\<close>.\<close>

definition enter_train :: "('x, 't, 'o, 'l, 'w) Trainer \<Rightarrow> 'w Module \<Rightarrow> 'w Module" where
  "enter_train self m =
     (let m1 = m\<lparr>training := True\<rparr>
      in if with_cuda self then m1\<lparr>module_cuda := True\<rparr> else m1)"

definition enter_eval :: "'w Module \<Rightarrow> 'w Module" where
  "enter_eval m = m\<lparr>training := False\<rparr>"

text \<open>Lines 68 to 74 of the training loop: convert the batch, reset the gradients,
  run the model, compute the loss, propagate it backward, step the optimizer.
  The result is the output, the converted target, the scalar loss and the model.\<close>

definition optimize_batch ::
  "('x, 't, 'o, 'l, 'w) Trainer \<Rightarrow> 'w Module \<Rightarrow> 'x \<times> 't
    \<Rightarrow> 'o \<times> 't Variable \<times> real \<times> 'w Module" where
  "optimize_batch self m dt =
     (let (data, target) = to_variable self dt;
          m1 = m\<lparr>weights := zero_grad self (weights m)\<rparr>;
          output = forward self m1 data;
          l = loss self output target;
          m2 = m1\<lparr>weights := backward self m1 data target\<rparr>;
          m3 = m2\<lparr>weights := step self (weights m2)\<rparr>
      in (output, target, l, m3))"

text \<open>Lines 80 to 85: the arguments given to the format string of the progress line.\<close>

definition format_args ::
  "('x, 't, 'o, 'l, 'w) Trainer \<Rightarrow> int \<Rightarrow> nat \<Rightarrow> real \<Rightarrow> progress_line" where
  "format_args self epoch batch_idx l =
     \<lparr>line_epoch = epoch,
      line_done = batch_idx * loader_batch_size (data_loader self),
      line_total = len_loader (data_loader self) * loader_batch_size (data_loader self),
      line_percent = 100 * real batch_idx / real (len_loader (data_loader self)),
      line_loss = l\<rparr>"

text \<open>Lines 79 to 85: the progress line. \<open>and\<close> evaluates its right operand only when
  the left one holds, and \<open>%\<close> raises when \<open>log_step\<close> is zero.\<close>

definition log_progress ::
  "('x, 't, 'o, 'l, 'w) Trainer \<Rightarrow> int \<Rightarrow> nat \<Rightarrow> real \<Rightarrow> 'w TrainerState
    \<Rightarrow> py_error + 'w TrainerState" where
  "log_progress self epoch batch_idx l st =
     (if verbosity self \<ge> 2 then
        (if log_step self = 0 then Inl ZeroDivisionError
         else if batch_idx mod log_step self = 0 then
           Inr (st\<lparr>logger := logger st @ [format_args self epoch batch_idx l]\<rparr>)
         else Inr st)
      else Inr st)"

text \<open>Lines 87 to 98: the training-loss chart.\<close>

definition plot_train_loss ::
  "('x, 't, 'o, 'l, 'w) Trainer \<Rightarrow> int \<Rightarrow> nat \<Rightarrow> real \<Rightarrow> 'w TrainerState \<Rightarrow> 'w TrainerState" where
  "plot_train_loss self epoch batch_idx l st =
     (if visualize self then
        (case plt_train_loss st of
           None \<Rightarrow>
             (let (h, sink) = viz_call \<lparr>line_X = None, line_Y = [l], line_win = None,
                     line_update = None, line_legend = [''Training Loss'']\<rparr> (viz st)
              in st\<lparr>viz := sink, plt_train_loss := Some h\<rparr>)
         | Some w \<Rightarrow>
             (let (h, sink) = viz_call
                    \<lparr>line_X = Some [int batch_idx + (epoch - 1) * int (len_loader (data_loader self))],
                     line_Y = [l], line_win = Some w,
                     line_update = Some ''append'', line_legend = [''Training Loss'']\<rparr> (viz st)
              in st\<lparr>viz := sink\<rparr>))
      else st)"

text \<open>The loop of \<open>_train_epoch\<close> over the batches still to come, \<open>batch_idx\<close> being
  the index of the first of them. An exception leaves the state as it was reached.\<close>

fun train_loop ::
  "('x, 't, 'o, 'l, 'w) Trainer \<Rightarrow> int \<Rightarrow> nat \<Rightarrow> ('x \<times> 't) list \<Rightarrow> real \<times> real list
    \<Rightarrow> 'w TrainerState \<Rightarrow> (py_error + real \<times> real list) \<times> 'w TrainerState" where
  "train_loop self epoch batch_idx [] totals st = (Inr totals, st)"
| "train_loop self epoch batch_idx (dt # rest) totals st =
     (let (output, target, l, m) = optimize_batch self (model st) dt;
          st1 = st\<lparr>model := m\<rparr>;
          total_loss = fst totals + l;
          total_metrics = map2 (+) (snd totals) (eval_metrics self output target)
      in case log_progress self epoch batch_idx l st1 of
           Inl e \<Rightarrow> (Inl e, st1)
         | Inr st2 \<Rightarrow>
             train_loop self epoch (Suc batch_idx) rest (total_loss, total_metrics)
               (plot_train_loss self epoch batch_idx l st2))"

text \<open>The loop of \<open>_valid_epoch\<close>: it reads the model and writes nothing.\<close>

fun valid_loop ::
  "('x, 't, 'o, 'l, 'w) Trainer \<Rightarrow> 'w Module \<Rightarrow> ('x \<times> 't) list \<Rightarrow> real \<times> real list
    \<Rightarrow> real \<times> real list" where
  "valid_loop self m [] totals = totals"
| "valid_loop self m (dt # rest) totals =
     (let (data, target) = to_variable self dt;
          output = forward self m data;
          l = loss self output target
      in valid_loop self m rest
           (fst totals + l, map2 (+) (snd totals) (eval_metrics self output target)))"

text \<open>Lines 132 to 143: the validation-loss chart. The mean is computed inside the
  call's arguments, so an empty loader raises before the sink is reached.\<close>

definition plot_val_loss ::
  "('x, 't, 'o, 'l, 'w) Trainer \<Rightarrow> int \<Rightarrow> real \<Rightarrow> nat \<Rightarrow> 'w TrainerState
    \<Rightarrow> py_error + 'w TrainerState" where
  "plot_val_loss self epoch total_val_loss n st =
     (if visualize self then
        (case plt_val_loss st of
           None \<Rightarrow>
             (case py_div total_val_loss n of
                Inl e \<Rightarrow> Inl e
              | Inr y \<Rightarrow>
                 (let (h, sink) = viz_call \<lparr>line_X = None, line_Y = [y], line_win = None,
                         line_update = None, line_legend = [''Validation Loss'']\<rparr> (viz st)
                  in Inr (st\<lparr>viz := sink, plt_val_loss := Some h\<rparr>)))
         | Some w \<Rightarrow>
             (case py_div total_val_loss n of
                Inl e \<Rightarrow> Inl e
              | Inr y \<Rightarrow>
                 (let (h, sink) = viz_call \<lparr>line_X = Some [epoch - 1], line_Y = [y],
                         line_win = Some w, line_update = Some ''append'',
                         line_legend = [''Validation Loss'']\<rparr> (viz st)
                  in Inr (st\<lparr>viz := sink\<rparr>))))
      else Inr st)"

definition valid_epoch ::
  "('x, 't, 'o, 'l, 'w) Trainer \<Rightarrow> int \<Rightarrow> 'w TrainerState
    \<Rightarrow> (py_error + (string, py_value) dict) \<times> 'w TrainerState" where
  "valid_epoch self epoch st =
     (let st0 = st\<lparr>model := enter_eval (model st)\<rparr>
      in case valid_data_loader self of
           None \<Rightarrow> (Inl TypeError, st0)
         | Some vdl \<Rightarrow>
             (let (total_val_loss, total_val_metrics) =
                    valid_loop self (model st0) (batches vdl)
                      (0, replicate (length (metrics self)) 0)
              in case plot_val_loss self epoch total_val_loss (len_loader vdl) st0 of
                   Inl e \<Rightarrow> (Inl e, st0)
                 | Inr st1 \<Rightarrow>
                     (case py_div total_val_loss (len_loader vdl) of
                        Inl e \<Rightarrow> (Inl e, st1)
                      | Inr val_loss \<Rightarrow>
                          (Inr [(''val_loss'', Float val_loss),
                                (''val_metrics'',
                                 FloatList (map (\<lambda>x. x / real (len_loader vdl)) total_val_metrics))],
                           st1))))"

definition train_epoch ::
  "('x, 't, 'o, 'l, 'w) Trainer \<Rightarrow> int \<Rightarrow> 'w TrainerState
    \<Rightarrow> (py_error + (string, py_value) dict) \<times> 'w TrainerState" where
  "train_epoch self epoch st =
     (let st1 = st\<lparr>model := enter_train self (model st)\<rparr>
      in case train_loop self epoch 0 (batches (data_loader self))
                (0, replicate (length (metrics self)) 0) st1 of
           (Inl e, st2) \<Rightarrow> (Inl e, st2)
         | (Inr (total_loss, total_metrics), st2) \<Rightarrow>
             (case py_div total_loss (len_loader (data_loader self)) of
                Inl e \<Rightarrow> (Inl e, st2)
              | Inr mean_loss \<Rightarrow>
                  (let log = [(''loss'', Float mean_loss),
                              (''metrics'',
                               FloatList (map (\<lambda>x. x / real (len_loader (data_loader self)))
                                            total_metrics))]
                   in if valid self then
                        (case valid_epoch self epoch st2 of
                           (Inl e, st3) \<Rightarrow> (Inl e, st3)
                         | (Inr val_log, st3) \<Rightarrow> (Inr (dict_merge log val_log), st3))
                      else (Inr log, st2))))"

section \<open>What the loops see, batch by batch\<close>

text \<open>
  The triples (output, converted target, scalar loss) that the training loop computes
  for the batches \<open>bs\<close> when it starts from model \<open>m\<close>: each batch is seen by the
  model that the optimizer steps of the earlier batches have left.
\<close>

fun train_trace ::
  "('x, 't, 'o, 'l, 'w) Trainer \<Rightarrow> 'w Module \<Rightarrow> ('x \<times> 't) list
    \<Rightarrow> ('o \<times> 't Variable \<times> real) list" where
  "train_trace self m [] = []"
| "train_trace self m (dt # rest) =
     (let (output, target, l, m') = optimize_batch self m dt
      in (output, target, l) # train_trace self m' rest)"

text \<open>The same triples for the validation loop, where the model stays as it is.\<close>

definition valid_trace ::
  "('x, 't, 'o, 'l, 'w) Trainer \<Rightarrow> 'w Module \<Rightarrow> ('x \<times> 't) list
    \<Rightarrow> ('o \<times> 't Variable \<times> real) list" where
  "valid_trace self m bs =
     map (\<lambda>dt. let (data, target) = to_variable self dt;
                    output = forward self m data
                in (output, target, loss self output target)) bs"

definition batch_losses :: "('o \<times> 't Variable \<times> real) list \<Rightarrow> real list" where
  "batch_losses trace = map (\<lambda>r. snd (snd r)) trace"

text \<open>The arithmetic mean of a list of numbers, and of one metric function over the
  batches of a trace.\<close>

definition mean :: "real list \<Rightarrow> real" where
  "mean xs = sum_list xs / real (length xs)"

definition metric_values ::
  "('x, 't, 'o, 'l, 'w) Trainer \<Rightarrow> ('o \<times> 't Variable \<times> real) list \<Rightarrow> ('l \<Rightarrow> 'l \<Rightarrow> real)
    \<Rightarrow> real list" where
  "metric_values self trace metric =
     map (\<lambda>r. metric (argmax self (fst r)) (numpy self (fst (snd r)))) trace"

text \<open>The model that the training loop leaves after the batches \<open>bs\<close>.\<close>

fun train_model ::
  "('x, 't, 'o, 'l, 'w) Trainer \<Rightarrow> 'w Module \<Rightarrow> ('x \<times> 't) list \<Rightarrow> 'w Module" where
  "train_model self m [] = m"
| "train_model self m (dt # rest) =
     train_model self (snd (snd (snd (optimize_batch self m dt)))) rest"

text \<open>The summary with the mean loss of a trace under the key \<open>kl\<close> and, under the key
  \<open>km\<close>, the mean of each configured metric function, in the order of \<open>self.metrics\<close>.\<close>

definition mean_log ::
  "string \<Rightarrow> string \<Rightarrow> ('x, 't, 'o, 'l, 'w) Trainer \<Rightarrow> ('o \<times> 't Variable \<times> real) list
    \<Rightarrow> (string, py_value) dict" where
  "mean_log kl km self trace =
     [(kl, Float (mean (batch_losses trace))),
      (km, FloatList (map (\<lambda>metric. mean (metric_values self trace metric)) (metrics self)))]"

text \<open>The progress lines due for the batches whose losses are \<open>ls\<close>, the first of
  them having index \<open>i\<close>.\<close>

definition emitted ::
  "('x, 't, 'o, 'l, 'w) Trainer \<Rightarrow> int \<Rightarrow> nat \<Rightarrow> real list \<Rightarrow> progress_line list" where
  "emitted self epoch i ls =
     map (\<lambda>p. format_args self epoch (fst p) (snd p))
       (filter (\<lambda>p. 2 \<le> verbosity self \<and> fst p mod log_step self = 0) (List.enumerate i ls))"

text \<open>The x-coordinates that a sequence of sink calls appends to the chart with the
  given legend, in call order.\<close>

definition appends :: "string list \<Rightarrow> viz_line list \<Rightarrow> viz_line list" where
  "appends legend calls =
     filter (\<lambda>c. line_legend c = legend \<and> line_update c = Some ''append'') calls"

definition appended_xs :: "string list \<Rightarrow> viz_line list \<Rightarrow> int list" where
  "appended_xs legend calls =
     concat (map (\<lambda>c. case line_X c of None \<Rightarrow> [] | Some xs \<Rightarrow> xs) (appends legend calls))"

text \<open>
  How the training-loss chart grows between two states of the trainer: the sink has
  received further calls; the x-coordinates they append to the chart are strictly
  increasing and lie from \<open>lo\<close> up to, but not including, \<open>hi\<close>; each of these calls
  goes to the window that the later state holds as \<open>plt_train_loss\<close>; and a window
  held before is still held.
\<close>

definition chart_grows :: "int \<Rightarrow> int \<Rightarrow> 'w TrainerState \<Rightarrow> 'w TrainerState \<Rightarrow> bool" where
  "chart_grows lo hi st st' =
     (\<exists>new. viz st' = viz st @ new
        \<and> sorted_wrt (<) (appended_xs [''Training Loss''] new)
        \<and> (\<forall>x\<in>set (appended_xs [''Training Loss''] new). lo \<le> x \<and> x < hi)
        \<and> (\<forall>c\<in>set (appends [''Training Loss''] new).
              \<exists>w. line_win c = Some w \<and> plt_train_loss st' = Some w)
        \<and> (\<forall>w. plt_train_loss st = Some w \<longrightarrow> plt_train_loss st' = Some w))"

text \<open>Successive calls of \<open>_train_epoch\<close> on one trainer, one per epoch index of the
  list; the state a call leaves, also when it raised, is the state the next one finds.\<close>

definition train_epochs ::
  "('x, 't, 'o, 'l, 'w) Trainer \<Rightarrow> int list \<Rightarrow> 'w TrainerState \<Rightarrow> 'w TrainerState" where
  "train_epochs self es st = foldl (\<lambda>s epoch. snd (train_epoch self epoch s)) st es"

section \<open>Concrete trainers\<close>

text \<open>
  A small trainer on which the methods can be run: inputs, targets and outputs are
  numbers, the model returns its input, the loss of a batch is its target, the weights
  count the optimizer steps, and a label is the integer part of a number. The loader
  has three batches with batch size 4, whose losses are 1, 2 and 3.
\<close>

definition demo_base :: "(real, real, real, int, nat) Trainer" where
  "demo_base =
     \<lparr>forward = (\<lambda>m x. tensor x),
      loss = (\<lambda>out t. tensor t),
      backward = (\<lambda>m x t. weights m),
      zero_grad = (\<lambda>w. w),
      step = Suc,
      metrics = [],
      argmax = (\<lambda>out. \<lfloor>out\<rfloor>),
      numpy = (\<lambda>t. \<lfloor>tensor t\<rfloor>),
      with_cuda = False,
      verbosity = 2,
      visualize = True,
      batch_size = 0,
      data_loader = \<lparr>batches = [], loader_batch_size = 0\<rparr>,
      valid_data_loader = None,
      valid = False,
      log_step = 0\<rparr>"

definition demo_loader :: "(real, real) DataLoader" where
  "demo_loader = \<lparr>batches = [(1, 1), (5, 2), (3, 3)], loader_batch_size = 4\<rparr>"

definition demo_valid_loader :: "(real, real) DataLoader" where
  "demo_valid_loader = \<lparr>batches = [(4, 4), (0, 6)], loader_batch_size = 4\<rparr>"

definition empty_loader :: "(real, real) DataLoader" where
  "empty_loader = \<lparr>batches = [], loader_batch_size = 4\<rparr>"

definition demo_model :: "nat Module" where
  "demo_model = \<lparr>weights = 0, training = False, module_cuda = False\<rparr>"

definition demo_state :: "nat TrainerState" where
  "demo_state = TrainerState_init demo_model"

text \<open>The trainer without metrics and without validation; the one whose training
  loader is empty; and the one with two metric functions (the share of equal labels,
  and the constant 1) and a validation loader.\<close>

definition demo_trainer :: "(real, real, real, int, nat) Trainer" where
  "demo_trainer = Trainer_init demo_base demo_loader None"

definition empty_trainer :: "(real, real, real, int, nat) Trainer" where
  "empty_trainer = Trainer_init demo_base empty_loader (Some empty_loader)"

definition demo_valid_trainer :: "(real, real, real, int, nat) Trainer" where
  "demo_valid_trainer =
     Trainer_init (demo_base\<lparr>metrics := [\<lambda>out t. if out = t then 1 else 0, \<lambda>out t. 1]\<rparr>)
       demo_loader (Some demo_valid_loader)"

section \<open>The integer square root\<close>

lemma sqrt_upto_square: "sqrt_upto n b * sqrt_upto n b \<le> n"
  by (induction b) auto

lemma sqrt_upto_greatest: "k \<le> b \<Longrightarrow> k * k \<le> n \<Longrightarrow> k \<le> sqrt_upto n b"
proof (induction b)
  case 0
  then show ?case by simp
next
  case (Suc b)
  show ?case
  proof (cases "Suc b * Suc b \<le> n")
    case True
    with Suc.prems show ?thesis by simp
  next
    case False
    with Suc.prems have "k \<le> b" by (cases "k = Suc b") auto
    with Suc False show ?thesis by simp
  qed
qed

lemma int_sqrt_unique:
  assumes "k * k \<le> n" and "n < Suc k * Suc k"
  shows "int_sqrt n = k"
proof -
  have "(real k)\<^sup>2 \<le> real n"
    using assms(1) by (metis of_nat_le_iff of_nat_mult power2_eq_square)
  then have lo: "real k \<le> sqrt (real n)"
    by (rule real_le_rsqrt)
  have "real n < (real (Suc k))\<^sup>2"
    using assms(2) by (metis of_nat_less_iff of_nat_mult power2_eq_square)
  then have hi: "sqrt (real n) < real (Suc k)"
    by (intro real_less_lsqrt) simp_all
  have "\<lfloor>sqrt (real n)\<rfloor> = int k"
    using lo hi by (intro floor_unique) simp_all
  then show ?thesis by (simp add: int_sqrt_def)
qed

lemma int_sqrt_code [code]: "int_sqrt n = sqrt_upto n n"
proof (rule int_sqrt_unique)
  show "sqrt_upto n n * sqrt_upto n n \<le> n" by (rule sqrt_upto_square)
  show "n < Suc (sqrt_upto n n) * Suc (sqrt_upto n n)"
  proof (rule ccontr)
    assume "\<not> n < Suc (sqrt_upto n n) * Suc (sqrt_upto n n)"
    then have le: "Suc (sqrt_upto n n) * Suc (sqrt_upto n n) \<le> n" by simp
    then have "Suc (sqrt_upto n n) \<le> n"
      by (metis le_square le_trans)
    from sqrt_upto_greatest [OF this le] show False by simp
  qed
qed

lemma int_sqrt_pos: "0 < n \<Longrightarrow> 0 < int_sqrt n"
proof -
  assume "0 < n"
  then have "Suc 0 \<le> sqrt_upto n n"
    by (intro sqrt_upto_greatest) simp_all
  then show ?thesis by (simp add: int_sqrt_code)
qed

section \<open>The entry log\<close>

lemma update_fresh: "k \<notin> fst ` set al \<Longrightarrow> AList.update k v al = al @ [(k, v)]"
  by (induction al) auto

lemma entries_add_entries:
  "entries (add_entries es BaseLogger_init) = zip (map (\<lambda>i. int i + 1) [0..<length es]) es"
proof (induction es rule: rev_induct)
  case Nil
  show ?case by (simp add: add_entries_def BaseLogger_init_def)
next
  case (snoc e es)
  let ?old = "zip (map (\<lambda>i. int i + 1) [0..<length es]) es"
  have fresh: "int (length es) + 1 \<notin> fst ` set ?old"
    by (auto dest!: set_zip_leftD)
  have "add_entries (es @ [e]) BaseLogger_init = add_entry e (add_entries es BaseLogger_init)"
    by (simp add: add_entries_def)
  then have "entries (add_entries (es @ [e]) BaseLogger_init)
      = dict_setitem (int (length es) + 1) e ?old"
    using snoc by (simp add: add_entry_def dict_len_def)
  also have "\<dots> = ?old @ [(int (length es) + 1, e)]"
    unfolding dict_setitem_def by (rule update_fresh [OF fresh])
  also have "\<dots> = zip (map (\<lambda>i. int i + 1) [0..<length (es @ [e])]) (es @ [e])"
    by simp
  finally show ?case .
qed

text \<open>
  Claim C8. On a logger built by the constructor and any sequence of \<open>add_entry\<close>
  calls: the next call stores its entry under the key (current count + 1) after all the
  entries already there, which stay as they were, and the count grows by one; after
  the calls for \<open>es\<close> the keys are 1, 2, ..., \<open>length es\<close> in call order and the values
  are \<open>es\<close>. \<open>add_entry\<close> has no failing branch.
\<close>

theorem add_entry_dense_keys:
  "entries (add_entries es BaseLogger_init) = zip (map (\<lambda>i. int i + 1) [0..<length es]) es
   \<and> entries (add_entry e (add_entries es BaseLogger_init))
       = entries (add_entries es BaseLogger_init) @ [(dict_len (entries (add_entries es BaseLogger_init)) + 1, e)]
   \<and> dict_len (entries (add_entry e (add_entries es BaseLogger_init)))
       = dict_len (entries (add_entries es BaseLogger_init)) + 1
   \<and> map fst (entries (add_entries es BaseLogger_init)) = map (\<lambda>i. int i + 1) [0..<length es]
   \<and> map snd (entries (add_entries es BaseLogger_init)) = es"
proof -
  have step: "add_entry e (add_entries es BaseLogger_init) = add_entries (es @ [e]) BaseLogger_init"
    by (simp add: add_entries_def)
  show ?thesis
    unfolding step entries_add_entries by (simp add: dict_len_def)
qed

text \<open>
  Claim C3. The claim is that \<open>log\<close> on the base logger raises a not-implemented
  error. The method returns instead: its result is the class \<open>NotImplementedError\<close>
  as a value, and no exception is raised.
\<close>

theorem log_returns_exception_class:
  "BaseLogger_log (BaseLogger_init :: unit BaseLogger) = Inr (ExceptionClass NotImplementedError)
   \<and> BaseLogger_log (BaseLogger_init :: unit BaseLogger) \<noteq> Inl NotImplementedError"
  by (simp add: BaseLogger_log_def)

section \<open>The loops of the trainer\<close>

lemma eval_metrics_loop_eq:
  "i + length ms = length acc \<Longrightarrow>
   eval_metrics_loop i ms out tgt acc
     = take i acc @ map2 (\<lambda>a m. a + m out tgt) (drop i acc) ms"
proof (induction ms arbitrary: i acc)
  case Nil
  then show ?case by simp
next
  case (Cons m ms)
  let ?acc = "acc[i := acc ! i + m out tgt]"
  have i: "i < length acc" using Cons.prems by simp
  have "eval_metrics_loop i (m # ms) out tgt acc = eval_metrics_loop (Suc i) ms out tgt ?acc"
    by simp
  also have "\<dots> = take (Suc i) ?acc @ map2 (\<lambda>a m. a + m out tgt) (drop (Suc i) ?acc) ms"
    using Cons.prems by (intro Cons.IH) simp
  also have "take (Suc i) ?acc = take i acc @ [acc ! i + m out tgt]"
    using i by (simp add: take_Suc_conv_app_nth)
  also have "drop (Suc i) ?acc = drop (Suc i) acc"
    by simp
  finally show ?case
    using i by (simp add: Cons_nth_drop_Suc [symmetric])
qed

lemma map2_replicate_zero:
  "map2 (\<lambda>a m. a + f m) (replicate (length ms) (0::real)) ms = map f ms"
  by (induction ms) auto

lemma eval_metrics_eq:
  "eval_metrics self output target
     = map (\<lambda>metric. metric (argmax self output) (numpy self target)) (metrics self)"
  by (simp add: eval_metrics_def eval_metrics_loop_eq map2_replicate_zero)

lemma map2_add_map:
  "map2 (+) (map f ms) (map g ms) = map (\<lambda>m. f m + (g m :: real)) ms"
  by (induction ms) auto

lemma log_progress_model: "log_progress self epoch i l st = Inr st' \<Longrightarrow> model st' = model st"
  by (auto simp: log_progress_def split: if_splits)

lemma plot_train_loss_model: "model (plot_train_loss self epoch i l st) = model st"
  by (simp add: plot_train_loss_def viz_call_def split: option.splits)

lemma train_loop_totals:
  "train_loop self epoch i bs (s0, map f (metrics self)) st = (Inr (s1, v1), st') \<Longrightarrow>
   s1 = s0 + sum_list (batch_losses (train_trace self (model st) bs))
   \<and> v1 = map (\<lambda>metric. f metric
              + sum_list (metric_values self (train_trace self (model st) bs) metric)) (metrics self)"
proof (induction bs arbitrary: i s0 f st)
  case Nil
  then show ?case by (simp add: batch_losses_def metric_values_def)
next
  case (Cons dt rest)
  obtain out target l m where ob: "optimize_batch self (model st) dt = (out, target, l, m)"
    by (cases "optimize_batch self (model st) dt") auto
  let ?st1 = "st\<lparr>model := m\<rparr>"
  from Cons.prems ob have "\<exists>st2. log_progress self epoch i l ?st1 = Inr st2"
    by (cases "log_progress self epoch i l ?st1") (simp_all add: Let_def)
  then obtain st2 where lp: "log_progress self epoch i l ?st1 = Inr st2" ..
  let ?f = "\<lambda>metric. f metric + metric (argmax self out) (numpy self target)"
  let ?st3 = "plot_train_loss self epoch i l st2"
  have rec: "train_loop self epoch (Suc i) rest (s0 + l, map ?f (metrics self)) ?st3
      = (Inr (s1, v1), st')"
    using Cons.prems ob lp by (simp add: Let_def eval_metrics_eq map2_add_map)
  have m: "model ?st3 = m"
    using log_progress_model [OF lp] by (simp add: plot_train_loss_model)
  from Cons.IH [OF rec] show ?case
    by (simp add: ob m batch_losses_def metric_values_def add.assoc)
qed

lemma train_loop_ok:
  "verbosity self < 2 \<or> log_step self \<noteq> 0 \<Longrightarrow>
   \<exists>tot st'. train_loop self epoch i bs totals st = (Inr tot, st')"
proof (induction bs arbitrary: i totals st)
  case Nil
  then show ?case by simp
next
  case (Cons dt rest)
  obtain out target l m where ob: "optimize_batch self (model st) dt = (out, target, l, m)"
    by (cases "optimize_batch self (model st) dt") auto
  have "\<exists>st2. log_progress self epoch i l (st\<lparr>model := m\<rparr>) = Inr st2"
    using Cons.prems by (auto simp: log_progress_def)
  then obtain st2 where lp: "log_progress self epoch i l (st\<lparr>model := m\<rparr>) = Inr st2" ..
  show ?case using Cons.IH [OF Cons.prems] by (simp add: ob lp Let_def)
qed

lemma valid_loop_totals:
  "valid_loop self m bs (s0, map f (metrics self))
     = (s0 + sum_list (batch_losses (valid_trace self m bs)),
        map (\<lambda>metric. f metric + sum_list (metric_values self (valid_trace self m bs) metric))
          (metrics self))"
proof (induction bs arbitrary: s0 f)
  case Nil
  show ?case by (simp add: batch_losses_def metric_values_def valid_trace_def)
next
  case (Cons dt rest)
  obtain d t where dt: "to_variable self dt = (d, t)"
    by (cases "to_variable self dt") auto
  let ?o = "forward self m d"
  let ?f = "\<lambda>metric. f metric + metric (argmax self ?o) (numpy self t)"
  have "valid_loop self m (dt # rest) (s0, map f (metrics self))
      = valid_loop self m rest (s0 + loss self ?o t, map ?f (metrics self))"
    by (simp add: dt Let_def eval_metrics_eq map2_add_map)
  also note Cons.IH
  finally show ?case
    by (simp add: dt Let_def batch_losses_def metric_values_def valid_trace_def add.assoc)
qed

lemma length_train_trace [simp]: "length (train_trace self m bs) = length bs"
  by (induction bs arbitrary: m) (auto simp: Let_def split: prod.splits)

lemma length_valid_trace [simp]: "length (valid_trace self m bs) = length bs"
  by (simp add: valid_trace_def)

lemma length_batch_losses [simp]: "length (batch_losses trace) = length trace"
  by (simp add: batch_losses_def)

lemma length_metric_values [simp]: "length (metric_values self trace metric) = length trace"
  by (simp add: metric_values_def)

lemma train_loop_model:
  "train_loop self epoch i bs totals st = (Inr tot, st') \<Longrightarrow>
   model st' = train_model self (model st) bs"
proof (induction bs arbitrary: i totals st)
  case Nil
  then show ?case by simp
next
  case (Cons dt rest)
  obtain out target l m where ob: "optimize_batch self (model st) dt = (out, target, l, m)"
    by (cases "optimize_batch self (model st) dt") auto
  let ?st1 = "st\<lparr>model := m\<rparr>"
  from Cons.prems ob have "\<exists>st2. log_progress self epoch i l ?st1 = Inr st2"
    by (cases "log_progress self epoch i l ?st1") (simp_all add: Let_def)
  then obtain st2 where lp: "log_progress self epoch i l ?st1 = Inr st2" ..
  let ?st3 = "plot_train_loss self epoch i l st2"
  have m: "model ?st3 = m"
    using log_progress_model [OF lp] by (simp add: plot_train_loss_model)
  have "\<exists>tt. train_loop self epoch (Suc i) rest tt ?st3 = (Inr tot, st')"
    using Cons.prems ob lp by (auto simp add: Let_def)
  then obtain tt where "train_loop self epoch (Suc i) rest tt ?st3 = (Inr tot, st')" ..
  from Cons.IH [OF this] show ?case by (simp add: ob m)
qed

lemma zeros_as_map: "replicate (length ms) (0::real) = map (\<lambda>_. 0) ms"
  by (simp add: map_replicate_const)

lemma plot_val_loss_cases:
  "plot_val_loss self epoch s n st = Inl e \<Longrightarrow> e = ZeroDivisionError \<and> n = 0"
  by (auto simp: plot_val_loss_def py_div_def viz_call_def split: if_splits option.splits)

lemma plot_val_loss_model:
  "plot_val_loss self epoch s n st = Inr st' \<Longrightarrow> model st' = model st"
  by (auto simp: plot_val_loss_def py_div_def viz_call_def split: if_splits option.splits)

lemma plot_val_loss_ok:
  "n \<noteq> 0 \<Longrightarrow> \<exists>st'. plot_val_loss self epoch s n st = Inr st'"
  by (auto simp: plot_val_loss_def py_div_def viz_call_def split: if_splits option.splits)

lemma plot_val_loss_empty:
  "plot_val_loss self epoch s 0 st = (if visualize self then Inl ZeroDivisionError else Inr st)"
  by (auto simp: plot_val_loss_def py_div_def split: option.splits)

lemma valid_epoch_fst:
  "fst (valid_epoch self epoch st) =
     (case valid_data_loader self of
        None \<Rightarrow> Inl TypeError
      | Some vdl \<Rightarrow>
          if batches vdl = [] then Inl ZeroDivisionError
          else Inr (mean_log ''val_loss'' ''val_metrics'' self
                      (valid_trace self (enter_eval (model st)) (batches vdl))))"
proof (cases "valid_data_loader self")
  case None
  then show ?thesis by (simp add: valid_epoch_def)
next
  case (Some vdl)
  let ?st0 = "st\<lparr>model := enter_eval (model st)\<rparr>"
  let ?tr = "valid_trace self (enter_eval (model st)) (batches vdl)"
  have vl: "valid_loop self (enter_eval (model st)) (batches vdl)
              (0, replicate (length (metrics self)) 0)
            = (sum_list (batch_losses ?tr),
               map (\<lambda>metric. sum_list (metric_values self ?tr metric)) (metrics self))"
    unfolding zeros_as_map valid_loop_totals by simp
  show ?thesis
  proof (cases "batches vdl = []")
    case True
    then show ?thesis
      using Some vl
      by (simp add: valid_epoch_def enter_eval_def len_loader_def plot_val_loss_empty py_div_def Let_def)
  next
    case False
    then have n: "length (batches vdl) \<noteq> 0" by simp
    from plot_val_loss_ok [OF n]
    obtain st1 where
      "plot_val_loss self epoch (sum_list (batch_losses ?tr)) (length (batches vdl)) ?st0 = Inr st1"
      by blast
    then show ?thesis
      using Some vl False
      by (simp add: valid_epoch_def enter_eval_def len_loader_def py_div_def mean_log_def
            mean_def Let_def o_def)
  qed
qed

lemma valid_epoch_model:
  "model (snd (valid_epoch self epoch st)) = enter_eval (model st)"
proof (cases "valid_data_loader self")
  case None
  then show ?thesis by (simp add: valid_epoch_def enter_eval_def)
next
  case (Some vdl)
  then show ?thesis
    by (auto simp: valid_epoch_def enter_eval_def Let_def
          split: prod.splits sum.splits dest: plot_val_loss_model)
qed

lemma dict_merge_logs:
  "dict_merge (mean_log ''loss'' ''metrics'' self tr) (mean_log ''val_loss'' ''val_metrics'' self vtr)
     = mean_log ''loss'' ''metrics'' self tr @ mean_log ''val_loss'' ''val_metrics'' self vtr"
  by (simp add: dict_merge_def dict_setitem_def mean_log_def)

lemma train_loop_start:
  assumes "train_loop self epoch 0 bs (0, replicate (length (metrics self)) 0) st = (Inr (s1, v1), st')"
  shows "s1 = sum_list (batch_losses (train_trace self (model st) bs))"
    and "v1 = map (\<lambda>metric. sum_list (metric_values self (train_trace self (model st) bs) metric))
               (metrics self)"
  using train_loop_totals [of self epoch 0 bs 0 "\<lambda>_. 0" st s1 v1 st'] assms
  by (simp_all add: zeros_as_map)

lemma train_log_eq:
  "bs \<noteq> [] \<Longrightarrow>
   [(''loss'', Float (sum_list (batch_losses (train_trace self m bs)) / real (length bs))),
    (''metrics'', FloatList (map (\<lambda>x. x / real (length bs))
       (map (\<lambda>metric. sum_list (metric_values self (train_trace self m bs) metric)) (metrics self))))]
   = mean_log ''loss'' ''metrics'' self (train_trace self m bs)"
  by (simp add: mean_log_def mean_def o_def)

lemma train_epoch_Inl:
  "train_loop self epoch 0 (batches (data_loader self)) (0, replicate (length (metrics self)) 0)
     (st\<lparr>model := enter_train self (model st)\<rparr>) = (Inl e, st2) \<Longrightarrow>
   train_epoch self epoch st = (Inl e, st2)"
  by (simp add: train_epoch_def)

lemma train_epoch_after_loop:
  "train_loop self epoch 0 (batches (data_loader self)) (0, replicate (length (metrics self)) 0)
     (st\<lparr>model := enter_train self (model st)\<rparr>) = (Inr (s1, v1), st2) \<Longrightarrow>
   batches (data_loader self) \<noteq> [] \<Longrightarrow>
   train_epoch self epoch st =
     (if valid self then
        (case valid_epoch self epoch st2 of
           (Inl e, st3) \<Rightarrow> (Inl e, st3)
         | (Inr val_log, st3) \<Rightarrow>
             (Inr (dict_merge
                [(''loss'', Float (s1 / real (length (batches (data_loader self))))),
                 (''metrics'', FloatList (map (\<lambda>x. x / real (length (batches (data_loader self)))) v1))]
                val_log), st3))
      else (Inr [(''loss'', Float (s1 / real (length (batches (data_loader self))))),
                 (''metrics'', FloatList (map (\<lambda>x. x / real (length (batches (data_loader self)))) v1))],
            st2))"
  by (simp add: train_epoch_def py_div_def len_loader_def)

lemma train_epoch_empty:
  "batches (data_loader self) = [] \<Longrightarrow>
   train_epoch self epoch st = (Inl ZeroDivisionError, st\<lparr>model := enter_train self (model st)\<rparr>)"
  by (simp add: train_epoch_def py_div_def len_loader_def)

lemma train_epoch_Inr:
  assumes "train_epoch self epoch st = (Inr lg, st')"
  shows "batches (data_loader self) \<noteq> []"
    and "\<not> valid self \<Longrightarrow>
           lg = mean_log ''loss'' ''metrics'' self
                   (train_trace self (enter_train self (model st)) (batches (data_loader self)))"
    and "valid self \<Longrightarrow>
           \<exists>vdl. valid_data_loader self = Some vdl \<and> batches vdl \<noteq> [] \<and>
             lg = mean_log ''loss'' ''metrics'' self
                     (train_trace self (enter_train self (model st)) (batches (data_loader self)))
                   @ mean_log ''val_loss'' ''val_metrics'' self
                       (valid_trace self
                          (enter_eval (train_model self (enter_train self (model st))
                                         (batches (data_loader self))))
                          (batches vdl))"
proof -
  let ?bs = "batches (data_loader self)"
  let ?st1 = "st\<lparr>model := enter_train self (model st)\<rparr>"
  let ?tr = "train_trace self (enter_train self (model st)) ?bs"
  show ne: "?bs \<noteq> []"
    using assms train_epoch_empty [of self epoch st] by auto
  obtain r st2 where tl: "train_loop self epoch 0 ?bs (0, replicate (length (metrics self)) 0) ?st1 = (r, st2)"
    by (cases "train_loop self epoch 0 ?bs (0, replicate (length (metrics self)) 0) ?st1") auto
  from assms tl obtain tot where r: "r = Inr tot"
    by (cases r) (auto dest: train_epoch_Inl)
  obtain s1 v1 where tot: "tot = (s1, v1)" by (cases tot) auto
  note tl' = tl [unfolded r tot]
  from train_loop_start [OF tl']
  have s1: "s1 = sum_list (batch_losses ?tr)"
    and v1: "v1 = map (\<lambda>metric. sum_list (metric_values self ?tr metric)) (metrics self)"
    by simp_all
  have m2: "model st2 = train_model self (enter_train self (model st)) ?bs"
    using train_loop_model [OF tl'] by simp
  have logeq: "[(''loss'', Float (s1 / real (length ?bs))),
       (''metrics'', FloatList (map (\<lambda>x. x / real (length ?bs)) v1))]
      = mean_log ''loss'' ''metrics'' self ?tr"
    unfolding s1 v1 by (rule train_log_eq [OF ne])
  note red = train_epoch_after_loop [OF tl' ne, unfolded logeq]
  show "lg = mean_log ''loss'' ''metrics'' self ?tr" if "\<not> valid self"
    using that assms red by simp
  show "\<exists>vdl. valid_data_loader self = Some vdl \<and> batches vdl \<noteq> [] \<and>
      lg = mean_log ''loss'' ''metrics'' self ?tr
            @ mean_log ''val_loss'' ''val_metrics'' self
                (valid_trace self (enter_eval (train_model self (enter_train self (model st)) ?bs))
                   (batches vdl))" if "valid self"
  proof -
    obtain vr st3 where ve: "valid_epoch self epoch st2 = (vr, st3)"
      by (cases "valid_epoch self epoch st2") auto
    from that assms red ve obtain val_log where vr: "vr = Inr val_log"
      and lg: "lg = dict_merge (mean_log ''loss'' ''metrics'' self ?tr) val_log"
      by (cases vr) auto
    have "fst (valid_epoch self epoch st2) = Inr val_log"
      using ve vr by simp
    then show ?thesis
      unfolding valid_epoch_fst lg m2
      by (auto simp: dict_merge_logs split: option.splits if_splits)
  qed
qed

lemma train_epoch_ok:
  assumes "verbosity self < 2 \<or> log_step self \<noteq> 0"
    and "batches (data_loader self) \<noteq> []"
    and "valid self \<Longrightarrow> \<exists>vdl. valid_data_loader self = Some vdl \<and> batches vdl \<noteq> []"
  shows "\<exists>lg st'. train_epoch self epoch st = (Inr lg, st')"
proof -
  let ?bs = "batches (data_loader self)"
  let ?st1 = "st\<lparr>model := enter_train self (model st)\<rparr>"
  from train_loop_ok [OF assms(1)]
  obtain tot st2 where tl: "train_loop self epoch 0 ?bs (0, replicate (length (metrics self)) 0) ?st1 = (Inr tot, st2)"
    by blast
  obtain s1 v1 where tot: "tot = (s1, v1)" by (cases tot) auto
  note red = train_epoch_after_loop [OF tl [unfolded tot] assms(2)]
  show ?thesis
  proof (cases "valid self")
    case False
    then show ?thesis using red by simp
  next
    case True
    from assms(3) [OF True] obtain vdl where
      vdl: "valid_data_loader self = Some vdl" "batches vdl \<noteq> []" by blast
    have "\<exists>vl. fst (valid_epoch self epoch st2) = Inr vl"
      unfolding valid_epoch_fst using vdl by simp
    then obtain vl st3 where "valid_epoch self epoch st2 = (Inr vl, st3)"
      by (cases "valid_epoch self epoch st2") auto
    then show ?thesis using True red by simp
  qed
qed

lemmas demo_defs = demo_base_def demo_loader_def demo_model_def demo_state_def
  Trainer_init_def TrainerState_init_def int_sqrt_def

lemmas method_defs = train_epoch_def valid_epoch_def enter_train_def enter_eval_def
  optimize_batch_def to_variable_def log_progress_def format_args_def plot_train_loss_def
  plot_val_loss_def
  viz_call_def eval_metrics_def py_div_def len_loader_def dict_merge_def dict_setitem_def
  dict_get_def

lemmas trace_defs = valid_trace_def batch_losses_def metric_values_def mean_def mean_log_def

lemma map_of_dict_merge:
  "distinct (map fst b) \<Longrightarrow> map_of (dict_merge a b) = map_of a ++ map_of b"
proof (induction b arbitrary: a)
  case Nil
  show ?case by (simp add: dict_merge_def)
next
  case (Cons kv b)
  obtain k v where kv: "kv = (k, v)" by (cases kv) auto
  have k: "k \<notin> dom (map_of b)"
    using Cons.prems kv by (simp add: dom_map_of_conv_image_fst)
  have "dict_merge a (kv # b) = dict_merge (AList.update k v a) b"
    by (simp add: dict_merge_def dict_setitem_def kv)
  also have "map_of \<dots> = map_of (AList.update k v a) ++ map_of b"
    using Cons.prems by (intro Cons.IH) simp
  also have "map_of (AList.update k v a) = (map_of a)(k \<mapsto> v)"
    by (rule update_conv')
  also have "(map_of a)(k \<mapsto> v) ++ map_of b = map_of a ++ map_of (kv # b)"
    using k unfolding kv by (simp add: map_add_upd_left)
  finally show ?case .
qed

lemma train_epoch_loss_key:
  assumes "train_epoch self epoch st = (Inr lg, st')"
  shows "dict_get lg ''loss'' = Some (Float (mean (batch_losses
           (train_trace self (enter_train self (model st)) (batches (data_loader self))))))"
proof (cases "valid self")
  case False
  from train_epoch_Inr(2) [OF assms False] show ?thesis
    by (simp add: dict_get_def mean_log_def)
next
  case True
  from train_epoch_Inr(3) [OF assms True] show ?thesis
    by (auto simp: dict_get_def mean_log_def)
qed

text \<open>
  Claim C1. For a training loader with at least one batch: whenever \<open>_train_epoch\<close>
  returns a summary, its \<open>loss\<close> entry is the arithmetic mean of the scalar losses of
  the batches, each computed by the model as the earlier optimizer steps left it; the
  call does return a summary when the progress line cannot fail and the validation
  loader, if configured, has a batch; and when the three batch losses are 1, 2 and 3,
  no metric is configured and validation is off, the summary is
  \<open>{loss: 2.0, metrics: []}\<close>. Floats are taken as real numbers.
\<close>

theorem train_epoch_mean_loss:
  assumes "batches (data_loader self) \<noteq> []"
  shows "(\<forall>lg st'. train_epoch self epoch st = (Inr lg, st') \<longrightarrow>
            dict_get lg ''loss'' = Some (Float (mean (batch_losses
              (train_trace self (enter_train self (model st)) (batches (data_loader self)))))))
       \<and> ((verbosity self < 2 \<or> log_step self \<noteq> 0)
            \<and> (valid self \<longrightarrow> (\<exists>vdl. valid_data_loader self = Some vdl \<and> batches vdl \<noteq> []))
          \<longrightarrow> (\<exists>lg st'. train_epoch self epoch st = (Inr lg, st')))
       \<and> (batch_losses (train_trace self (enter_train self (model st)) (batches (data_loader self)))
              = [1, 2, 3]
            \<and> metrics self = [] \<and> \<not> valid self \<and> (verbosity self < 2 \<or> log_step self \<noteq> 0)
          \<longrightarrow> fst (train_epoch self epoch st) = Inr [(''loss'', Float 2), (''metrics'', FloatList [])])"
proof (intro conjI allI impI)
  fix lg st'
  assume "train_epoch self epoch st = (Inr lg, st')"
  then show "dict_get lg ''loss'' = Some (Float (mean (batch_losses
      (train_trace self (enter_train self (model st)) (batches (data_loader self))))))"
    by (rule train_epoch_loss_key)
next
  assume "(verbosity self < 2 \<or> log_step self \<noteq> 0)
    \<and> (valid self \<longrightarrow> (\<exists>vdl. valid_data_loader self = Some vdl \<and> batches vdl \<noteq> []))"
  then show "\<exists>lg st'. train_epoch self epoch st = (Inr lg, st')"
    using assms by (intro train_epoch_ok) auto
next
  let ?tr = "train_trace self (enter_train self (model st)) (batches (data_loader self))"
  assume a: "batch_losses ?tr = [1, 2, 3] \<and> metrics self = [] \<and> \<not> valid self
    \<and> (verbosity self < 2 \<or> log_step self \<noteq> 0)"
  then have "\<exists>lg st'. train_epoch self epoch st = (Inr lg, st')"
    using assms by (intro train_epoch_ok) auto
  then obtain lg st' where r: "train_epoch self epoch st = (Inr lg, st')" by blast
  from train_epoch_Inr(2) [OF r] a have "lg = mean_log ''loss'' ''metrics'' self ?tr" by simp
  then have "lg = [(''loss'', Float 2), (''metrics'', FloatList [])]"
    using a by (simp add: mean_log_def mean_def)
  then show "fst (train_epoch self epoch st) = Inr [(''loss'', Float 2), (''metrics'', FloatList [])]"
    using r by simp
qed

theorem train_epoch_mean_loss_witness:
  "batches (data_loader demo_trainer) \<noteq> []
   \<and> batch_losses (train_trace demo_trainer (enter_train demo_trainer (model demo_state))
        (batches (data_loader demo_trainer))) = [1, 2, 3]
   \<and> fst (train_epoch demo_trainer 1 demo_state) = Inr [(''loss'', Float 2), (''metrics'', FloatList [])]"
  using train_epoch_mean_loss [of demo_trainer 1 demo_state]
  by (simp add: demo_defs demo_trainer_def enter_train_def optimize_batch_def to_variable_def batch_losses_def)

text \<open>
  Claim C2. The claim is that a loader without batches makes the epoch call raise
  \<open>EmptyDataSourceError\<close>. On the trainer whose loaders are empty, both
  \<open>_train_epoch\<close> and \<open>_valid_epoch\<close> raise \<open>ZeroDivisionError\<close>, from the division by
  \<open>len(...)\<close>.
\<close>

theorem empty_source_counterexample:
  "fst (train_epoch empty_trainer 1 demo_state) = Inl ZeroDivisionError
   \<and> fst (train_epoch empty_trainer 1 demo_state) \<noteq> Inl EmptyDataSourceError
   \<and> fst (valid_epoch empty_trainer 1 demo_state) = Inl ZeroDivisionError
   \<and> fst (valid_epoch empty_trainer 1 demo_state) \<noteq> Inl EmptyDataSourceError"
  by (simp add: demo_defs empty_trainer_def empty_loader_def method_defs)

text \<open>
  Claim C2, as the code has it. With an empty training loader \<open>_train_epoch\<close> raises
  \<open>ZeroDivisionError\<close>; with an empty validation loader \<open>_valid_epoch\<close> raises
  \<open>ZeroDivisionError\<close>, and so does \<open>_train_epoch\<close> when validation is on and its own
  loop has gone through. No summary with a NaN is returned.
\<close>

theorem empty_source_zero_division:
  "(batches (data_loader self) = [] \<longrightarrow> fst (train_epoch self epoch st) = Inl ZeroDivisionError)
   \<and> (\<forall>vdl. valid_data_loader self = Some vdl \<and> batches vdl = [] \<longrightarrow>
         fst (valid_epoch self epoch st) = Inl ZeroDivisionError)
   \<and> (\<forall>vdl. batches (data_loader self) \<noteq> [] \<and> (verbosity self < 2 \<or> log_step self \<noteq> 0)
         \<and> valid self \<and> valid_data_loader self = Some vdl \<and> batches vdl = [] \<longrightarrow>
         fst (train_epoch self epoch st) = Inl ZeroDivisionError)"
proof (intro conjI allI impI)
  assume "batches (data_loader self) = []"
  then show "fst (train_epoch self epoch st) = Inl ZeroDivisionError"
    by (simp add: train_epoch_empty)
next
  fix vdl
  assume "valid_data_loader self = Some vdl \<and> batches vdl = []"
  then show "fst (valid_epoch self epoch st) = Inl ZeroDivisionError"
    by (simp add: valid_epoch_fst)
next
  fix vdl
  let ?bs = "batches (data_loader self)"
  assume a: "?bs \<noteq> [] \<and> (verbosity self < 2 \<or> log_step self \<noteq> 0)
    \<and> valid self \<and> valid_data_loader self = Some vdl \<and> batches vdl = []"
  then have "verbosity self < 2 \<or> log_step self \<noteq> 0" by simp
  from train_loop_ok [OF this]
  obtain tot st2 where tl: "train_loop self epoch 0 ?bs (0, replicate (length (metrics self)) 0)
      (st\<lparr>model := enter_train self (model st)\<rparr>) = (Inr tot, st2)"
    by blast
  obtain s1 v1 where tot: "tot = (s1, v1)" by (cases tot) auto
  have ne: "?bs \<noteq> []" using a by simp
  have "fst (valid_epoch self epoch st2) = Inl ZeroDivisionError"
    using a by (simp add: valid_epoch_fst)
  then obtain st3 where "valid_epoch self epoch st2 = (Inl ZeroDivisionError, st3)"
    by (cases "valid_epoch self epoch st2") auto
  then show "fst (train_epoch self epoch st) = Inl ZeroDivisionError"
    using train_epoch_after_loop [OF tl [unfolded tot] ne] a by simp
qed

theorem empty_source_zero_division_witness:
  "batches (data_loader empty_trainer) = []
   \<and> valid_data_loader empty_trainer = Some empty_loader \<and> batches empty_loader = []
   \<and> fst (train_epoch empty_trainer 1 demo_state) = Inl ZeroDivisionError
   \<and> fst (valid_epoch empty_trainer 1 demo_state) = Inl ZeroDivisionError"
  using empty_source_zero_division [of empty_trainer 1 demo_state]
  by (simp add: demo_defs empty_trainer_def empty_loader_def)

text \<open>
  Claim C5. \<open>_valid_epoch\<close> leaves the weights (parameters, gradients, optimizer
  buffers) as they were and only clears the model's training flag; a second call right
  after the first, for any epoch index, returns the same result as the first, be it
  the summary with \<open>val_loss\<close> and \<open>val_metrics\<close> or the exception.
\<close>

theorem valid_epoch_repeatable:
  "fst (valid_epoch self epoch2 (snd (valid_epoch self epoch1 st))) = fst (valid_epoch self epoch1 st)
   \<and> model (snd (valid_epoch self epoch1 st)) = enter_eval (model st)
   \<and> weights (model (snd (valid_epoch self epoch1 st))) = weights (model st)"
  by (simp add: valid_epoch_fst valid_epoch_model enter_eval_def split: option.splits)

lemma train_epoch_valid_merge:
  assumes "valid self" and "train_epoch self epoch st = (Inr lg, st')"
  shows "\<exists>st2 val_log. valid_epoch self epoch st2 = (Inr val_log, st')
           \<and> lg = dict_merge (mean_log ''loss'' ''metrics'' self
                     (train_trace self (enter_train self (model st)) (batches (data_loader self))))
                   val_log"
proof -
  let ?bs = "batches (data_loader self)"
  let ?st1 = "st\<lparr>model := enter_train self (model st)\<rparr>"
  let ?tr = "train_trace self (enter_train self (model st)) ?bs"
  have ne: "?bs \<noteq> []"
    using assms(2) by (rule train_epoch_Inr(1))
  obtain r st2 where tl: "train_loop self epoch 0 ?bs (0, replicate (length (metrics self)) 0) ?st1 = (r, st2)"
    by (cases "train_loop self epoch 0 ?bs (0, replicate (length (metrics self)) 0) ?st1") auto
  from assms(2) tl obtain tot where r: "r = Inr tot"
    by (cases r) (auto dest: train_epoch_Inl)
  obtain s1 v1 where tot: "tot = (s1, v1)" by (cases tot) auto
  note tl' = tl [unfolded r tot]
  from train_loop_start [OF tl']
  have s1: "s1 = sum_list (batch_losses ?tr)"
    and v1: "v1 = map (\<lambda>metric. sum_list (metric_values self ?tr metric)) (metrics self)"
    by simp_all
  have logeq: "[(''loss'', Float (s1 / real (length ?bs))),
       (''metrics'', FloatList (map (\<lambda>x. x / real (length ?bs)) v1))]
      = mean_log ''loss'' ''metrics'' self ?tr"
    unfolding s1 v1 by (rule train_log_eq [OF ne])
  note red = train_epoch_after_loop [OF tl' ne, unfolded logeq]
  obtain vr st3 where ve: "valid_epoch self epoch st2 = (vr, st3)"
    by (cases "valid_epoch self epoch st2") auto
  from assms red ve obtain val_log where "vr = Inr val_log" "st3 = st'"
    and "lg = dict_merge (mean_log ''loss'' ''metrics'' self ?tr) val_log"
    by (cases vr) auto
  with ve show ?thesis by blast
qed

lemma metric_means_of_summary:
  assumes "fst (train_epoch self epoch st) = Inr lg"
  shows "(\<exists>ms. dict_get lg ''metrics'' = Some (FloatList ms)
           \<and> length ms = length (metrics self)
           \<and> (\<forall>i<length (metrics self). ms ! i = mean (metric_values self
                 (train_trace self (enter_train self (model st)) (batches (data_loader self)))
                 (metrics self ! i))))
       \<and> (valid self \<longrightarrow>
            (\<exists>vdl vs. valid_data_loader self = Some vdl
               \<and> dict_get lg ''val_metrics'' = Some (FloatList vs)
               \<and> length vs = length (metrics self)
               \<and> (\<forall>i<length (metrics self). vs ! i = mean (metric_values self
                     (valid_trace self
                        (enter_eval (train_model self (enter_train self (model st))
                                       (batches (data_loader self))))
                        (batches vdl))
                     (metrics self ! i)))))"
proof -
  obtain st' where r: "train_epoch self epoch st = (Inr lg, st')"
    using assms by (cases "train_epoch self epoch st") auto
  let ?tr = "train_trace self (enter_train self (model st)) (batches (data_loader self))"
  have train: "dict_get lg ''metrics''
      = Some (FloatList (map (\<lambda>metric. mean (metric_values self ?tr metric)) (metrics self)))"
  proof (cases "valid self")
    case False
    from train_epoch_Inr(2) [OF r False] show ?thesis
      by (simp add: dict_get_def mean_log_def)
  next
    case True
    from train_epoch_Inr(3) [OF r True] show ?thesis
      by (auto simp: dict_get_def mean_log_def)
  qed
  have val: "\<exists>vdl. valid_data_loader self = Some vdl
      \<and> dict_get lg ''val_metrics'' = Some (FloatList (map (\<lambda>metric. mean (metric_values self
            (valid_trace self
               (enter_eval (train_model self (enter_train self (model st)) (batches (data_loader self))))
               (batches vdl)) metric)) (metrics self)))" if "valid self"
    using train_epoch_Inr(3) [OF r that] by (auto simp: dict_get_def mean_log_def)
  show ?thesis
  proof (intro conjI impI)
    show "\<exists>ms. dict_get lg ''metrics'' = Some (FloatList ms)
           \<and> length ms = length (metrics self)
           \<and> (\<forall>i<length (metrics self). ms ! i = mean (metric_values self ?tr (metrics self ! i)))"
      using train by simp
  next
    assume "valid self"
    from val [OF this] obtain vdl where
      "valid_data_loader self = Some vdl"
      "dict_get lg ''val_metrics'' = Some (FloatList (map (\<lambda>metric. mean (metric_values self
            (valid_trace self
               (enter_eval (train_model self (enter_train self (model st)) (batches (data_loader self))))
               (batches vdl)) metric)) (metrics self)))"
      by blast
    then show "\<exists>vdl vs. valid_data_loader self = Some vdl
               \<and> dict_get lg ''val_metrics'' = Some (FloatList vs)
               \<and> length vs = length (metrics self)
               \<and> (\<forall>i<length (metrics self). vs ! i = mean (metric_values self
                     (valid_trace self
                        (enter_eval (train_model self (enter_train self (model st))
                                       (batches (data_loader self))))
                        (batches vdl))
                     (metrics self ! i)))"
      by simp
  qed
qed

text \<open>
  Claim C4. \<open>_train_epoch\<close> returns a summary when the training loader has a batch,
  the progress line cannot fail and the validation loader, if configured, has a batch.
  Whenever it returns a summary, the \<open>metrics\<close> entry is a list with one number per
  configured metric function, in the order of \<open>self.metrics\<close>, and the number at
  position \<open>i\<close> is the mean over the training batches of the \<open>i\<close>-th metric function
  applied to the batch's predicted and true labels; when validation is on, the
  \<open>val_metrics\<close> entry is the same for the validation batches, seen by the model that
  training has left, in evaluation mode.
\<close>

theorem epoch_metric_means:
  "(batches (data_loader self) \<noteq> [] \<and> (verbosity self < 2 \<or> log_step self \<noteq> 0)
      \<and> (valid self \<longrightarrow> (\<exists>vdl. valid_data_loader self = Some vdl \<and> batches vdl \<noteq> []))
    \<longrightarrow> (\<exists>lg. fst (train_epoch self epoch st) = Inr lg))
   \<and> (\<forall>lg. fst (train_epoch self epoch st) = Inr lg \<longrightarrow>
        (\<exists>ms. dict_get lg ''metrics'' = Some (FloatList ms)
           \<and> length ms = length (metrics self)
           \<and> (\<forall>i<length (metrics self). ms ! i = mean (metric_values self
                 (train_trace self (enter_train self (model st)) (batches (data_loader self)))
                 (metrics self ! i))))
        \<and> (valid self \<longrightarrow>
            (\<exists>vdl vs. valid_data_loader self = Some vdl
               \<and> dict_get lg ''val_metrics'' = Some (FloatList vs)
               \<and> length vs = length (metrics self)
               \<and> (\<forall>i<length (metrics self). vs ! i = mean (metric_values self
                     (valid_trace self
                        (enter_eval (train_model self (enter_train self (model st))
                                       (batches (data_loader self))))
                        (batches vdl))
                     (metrics self ! i))))))"
proof (intro conjI allI impI)
  assume a: "batches (data_loader self) \<noteq> [] \<and> (verbosity self < 2 \<or> log_step self \<noteq> 0)
      \<and> (valid self \<longrightarrow> (\<exists>vdl. valid_data_loader self = Some vdl \<and> batches vdl \<noteq> []))"
  then have "\<exists>lg st'. train_epoch self epoch st = (Inr lg, st')"
    by (intro train_epoch_ok) auto
  then show "\<exists>lg. fst (train_epoch self epoch st) = Inr lg"
    by auto
next
  fix lg
  assume "fst (train_epoch self epoch st) = Inr lg"
  from metric_means_of_summary [OF this]
  show "\<exists>ms. dict_get lg ''metrics'' = Some (FloatList ms)
           \<and> length ms = length (metrics self)
           \<and> (\<forall>i<length (metrics self). ms ! i = mean (metric_values self
                 (train_trace self (enter_train self (model st)) (batches (data_loader self)))
                 (metrics self ! i)))"
    by blast
next
  fix lg
  assume "fst (train_epoch self epoch st) = Inr lg" and "valid self"
  with metric_means_of_summary [of self epoch st lg]
  show "\<exists>vdl vs. valid_data_loader self = Some vdl
               \<and> dict_get lg ''val_metrics'' = Some (FloatList vs)
               \<and> length vs = length (metrics self)
               \<and> (\<forall>i<length (metrics self). vs ! i = mean (metric_values self
                     (valid_trace self
                        (enter_eval (train_model self (enter_train self (model st))
                                       (batches (data_loader self))))
                        (batches vdl))
                     (metrics self ! i)))"
    by blast
qed

theorem epoch_metric_means_witness:
  "fst (train_epoch demo_valid_trainer 1 demo_state)
     = Inr [(''loss'', Float 2), (''metrics'', FloatList [2 / 3, 1]),
            (''val_loss'', Float 5), (''val_metrics'', FloatList [1 / 2, 1])]
   \<and> length (metrics demo_valid_trainer) = 2
   \<and> (\<exists>ms. dict_get [(''loss'', Float 2), (''metrics'', FloatList [2 / 3, 1]),
                     (''val_loss'', Float 5), (''val_metrics'', FloatList [1 / 2, 1])] ''metrics''
             = Some (FloatList ms)
          \<and> length ms = 2
          \<and> ms ! 0 = mean (metric_values demo_valid_trainer
               (train_trace demo_valid_trainer (enter_train demo_valid_trainer (model demo_state))
                  (batches (data_loader demo_valid_trainer)))
               (metrics demo_valid_trainer ! 0)))"
proof -
  have run: "fst (train_epoch demo_valid_trainer 1 demo_state)
     = Inr [(''loss'', Float 2), (''metrics'', FloatList [2 / 3, 1]),
            (''val_loss'', Float 5), (''val_metrics'', FloatList [1 / 2, 1])]"
    by (simp add: demo_defs demo_valid_trainer_def demo_valid_loader_def method_defs)
  have len: "length (metrics demo_valid_trainer) = 2"
    by (simp add: demo_defs demo_valid_trainer_def demo_valid_loader_def)
  from epoch_metric_means [of demo_valid_trainer 1 demo_state] len run show ?thesis
    by auto
qed

text \<open>
  Claim C10. With validation on, the summary that \<open>_train_epoch\<close> returns is the
  dictionary merge \<open>{**log, **val_log}\<close> of the training log and of what
  \<open>_valid_epoch\<close> returned: every key of the validation log carries the validation
  value in the summary, and no check for a collision is made. For any two dictionaries,
  a key of the second has the second's value in the merge, also when the first has the
  key, and a key that the second lacks keeps the first's value.
\<close>

theorem summary_is_dict_merge:
  assumes "valid self" and "train_epoch self epoch st = (Inr lg, st')"
  shows "(\<exists>st2 val_log. valid_epoch self epoch st2 = (Inr val_log, st')
            \<and> lg = dict_merge (mean_log ''loss'' ''metrics'' self
                      (train_trace self (enter_train self (model st)) (batches (data_loader self))))
                    val_log
            \<and> (\<forall>k v. dict_get val_log k = Some v \<longrightarrow> dict_get lg k = Some v))
       \<and> (\<forall>(a :: (string, py_value) dict) b k v.
            distinct (map fst b) \<and> dict_get b k = Some v \<longrightarrow> dict_get (dict_merge a b) k = Some v)
       \<and> (\<forall>(a :: (string, py_value) dict) b k.
            distinct (map fst b) \<and> dict_get b k = None \<longrightarrow> dict_get (dict_merge a b) k = dict_get a k)"
proof (intro conjI allI impI)
  from train_epoch_valid_merge [OF assms] obtain st2 val_log where
    ve: "valid_epoch self epoch st2 = (Inr val_log, st')"
    and lg: "lg = dict_merge (mean_log ''loss'' ''metrics'' self
               (train_trace self (enter_train self (model st)) (batches (data_loader self)))) val_log"
    by blast
  have "fst (valid_epoch self epoch st2) = Inr val_log" using ve by simp
  then have "distinct (map fst val_log)"
    unfolding valid_epoch_fst by (auto simp: mean_log_def split: option.splits if_splits)
  then have "\<forall>k v. dict_get val_log k = Some v \<longrightarrow> dict_get lg k = Some v"
    unfolding lg by (simp add: dict_get_def map_of_dict_merge map_add_Some_iff)
  with ve lg show "\<exists>st2 val_log. valid_epoch self epoch st2 = (Inr val_log, st')
            \<and> lg = dict_merge (mean_log ''loss'' ''metrics'' self
                      (train_trace self (enter_train self (model st)) (batches (data_loader self))))
                    val_log
            \<and> (\<forall>k v. dict_get val_log k = Some v \<longrightarrow> dict_get lg k = Some v)"
    by blast
next
  fix a b :: "(string, py_value) dict" and k v
  assume "distinct (map fst b) \<and> dict_get b k = Some v"
  then show "dict_get (dict_merge a b) k = Some v"
    by (simp add: dict_get_def map_of_dict_merge map_add_Some_iff)
next
  fix a b :: "(string, py_value) dict" and k
  assume "distinct (map fst b) \<and> dict_get b k = None"
  then show "dict_get (dict_merge a b) k = dict_get a k"
    by (simp add: dict_get_def map_of_dict_merge map_add_def)
qed

theorem summary_is_dict_merge_witness:
  "valid demo_valid_trainer
   \<and> fst (train_epoch demo_valid_trainer 1 demo_state)
       = Inr [(''loss'', Float 2), (''metrics'', FloatList [2 / 3, 1]),
              (''val_loss'', Float 5), (''val_metrics'', FloatList [1 / 2, 1])]
   \<and> distinct (map fst [(''loss'', Float 7)])
   \<and> dict_get [(''loss'', Float 7)] ''loss'' = Some (Float 7)
   \<and> dict_get (dict_merge [(''loss'', Float 2), (''metrics'', FloatList [])] [(''loss'', Float 7)]) ''loss''
       = Some (Float 7)"
proof -
  have v: "valid demo_valid_trainer"
    by (simp add: demo_defs demo_valid_trainer_def demo_valid_loader_def)
  have run: "fst (train_epoch demo_valid_trainer 1 demo_state)
     = Inr [(''loss'', Float 2), (''metrics'', FloatList [2 / 3, 1]),
            (''val_loss'', Float 5), (''val_metrics'', FloatList [1 / 2, 1])]"
    by (simp add: demo_defs demo_valid_trainer_def demo_valid_loader_def method_defs)
  then obtain st' where "train_epoch demo_valid_trainer 1 demo_state
     = (Inr [(''loss'', Float 2), (''metrics'', FloatList [2 / 3, 1]),
            (''val_loss'', Float 5), (''val_metrics'', FloatList [1 / 2, 1])], st')"
    by (cases "train_epoch demo_valid_trainer 1 demo_state") auto
  from summary_is_dict_merge [OF v this]
  have "\<forall>(a :: (string, py_value) dict) b k v.
      distinct (map fst b) \<and> dict_get b k = Some v \<longrightarrow> dict_get (dict_merge a b) k = Some v"
    by blast
  then have "dict_get (dict_merge [(''loss'', Float 2), (''metrics'', FloatList [])] [(''loss'', Float 7)]) ''loss''
       = Some (Float 7)"
    by (simp add: dict_get_def)
  with v run show ?thesis by (simp add: dict_get_def)
qed

lemma log_progress_logger:
  "verbosity self < 2 \<or> log_step self \<noteq> 0 \<Longrightarrow>
   log_progress self epoch i l st =
     Inr (st\<lparr>logger := logger st @
            (if 2 \<le> verbosity self \<and> i mod log_step self = 0
             then [format_args self epoch i l] else [])\<rparr>)"
  by (auto simp: log_progress_def)

lemma plot_train_loss_logger: "logger (plot_train_loss self epoch i l st) = logger st"
  by (simp add: plot_train_loss_def viz_call_def split: option.splits)

lemma plot_val_loss_logger:
  "plot_val_loss self epoch s n st = Inr st' \<Longrightarrow> logger st' = logger st"
  by (auto simp: plot_val_loss_def py_div_def viz_call_def split: if_splits option.splits)

lemma valid_epoch_logger: "logger (snd (valid_epoch self epoch st)) = logger st"
proof (cases "valid_data_loader self")
  case None
  then show ?thesis by (simp add: valid_epoch_def)
next
  case (Some vdl)
  then show ?thesis
    by (auto simp: valid_epoch_def Let_def
          split: prod.splits sum.splits dest: plot_val_loss_logger)
qed

lemma train_loop_logger:
  assumes "verbosity self < 2 \<or> log_step self \<noteq> 0"
  shows "logger (snd (train_loop self epoch i bs totals st))
     = logger st @ emitted self epoch i (batch_losses (train_trace self (model st) bs))"
proof (induction bs arbitrary: i totals st)
  case Nil
  show ?case by (simp add: batch_losses_def emitted_def)
next
  case (Cons dt rest)
  obtain out target l m where ob: "optimize_batch self (model st) dt = (out, target, l, m)"
    by (cases "optimize_batch self (model st) dt") auto
  let ?st1 = "st\<lparr>model := m\<rparr>"
  let ?st2 = "?st1\<lparr>logger := logger ?st1 @
            (if 2 \<le> verbosity self \<and> i mod log_step self = 0
             then [format_args self epoch i l] else [])\<rparr>"
  let ?st3 = "plot_train_loss self epoch i l ?st2"
  have lp: "log_progress self epoch i l ?st1 = Inr ?st2"
    by (rule log_progress_logger [OF assms])
  have m3: "model ?st3 = m" by (simp add: plot_train_loss_model)
  have l3: "logger ?st3 = logger st @
            (if 2 \<le> verbosity self \<and> i mod log_step self = 0
             then [format_args self epoch i l] else [])"
    by (simp add: plot_train_loss_logger)
  let ?tt = "(fst totals + l, map2 (+) (snd totals) (eval_metrics self out target))"
  have "train_loop self epoch i (dt # rest) totals st
      = train_loop self epoch (Suc i) rest ?tt ?st3"
    by (simp add: ob lp Let_def)
  then have "logger (snd (train_loop self epoch i (dt # rest) totals st))
      = logger ?st3 @ emitted self epoch (Suc i) (batch_losses (train_trace self m rest))"
    using Cons.IH [of "Suc i" ?tt ?st3] by (simp only: m3)
  then show ?case
    unfolding l3 by (simp add: ob batch_losses_def emitted_def)
qed

lemma train_epoch_logger:
  assumes "verbosity self < 2 \<or> log_step self \<noteq> 0"
  shows "logger (snd (train_epoch self epoch st))
     = logger st @ emitted self epoch 0 (batch_losses
         (train_trace self (enter_train self (model st)) (batches (data_loader self))))"
proof -
  let ?bs = "batches (data_loader self)"
  let ?st1 = "st\<lparr>model := enter_train self (model st)\<rparr>"
  from train_loop_ok [OF assms]
  obtain tot st2 where tl: "train_loop self epoch 0 ?bs (0, replicate (length (metrics self)) 0) ?st1 = (Inr tot, st2)"
    by blast
  obtain s1 v1 where tot: "tot = (s1, v1)" by (cases tot) auto
  have l2: "logger st2 = logger st @ emitted self epoch 0 (batch_losses
         (train_trace self (enter_train self (model st)) ?bs))"
    using train_loop_logger [OF assms, of epoch 0 ?bs "(0, replicate (length (metrics self)) 0)" ?st1]
    by (simp add: tl)
  show ?thesis
  proof (cases "?bs = []")
    case True
    then show ?thesis
      by (simp add: train_epoch_empty emitted_def batch_losses_def)
  next
    case False
    note red = train_epoch_after_loop [OF tl [unfolded tot] False]
    show ?thesis
    proof (cases "valid self")
      case False
      then show ?thesis using red l2 by simp
    next
      case True
      obtain vr st3 where ve: "valid_epoch self epoch st2 = (vr, st3)"
        by (cases "valid_epoch self epoch st2") auto
      have "logger st3 = logger st2"
        using valid_epoch_logger [of self epoch st2] ve by simp
      then show ?thesis
        using True red l2 ve by (cases vr) simp_all
    qed
  qed
qed

text \<open>
  Claim C9. For a trainer as the constructor builds it, with a batch size of at
  least one: \<open>log_step\<close> is the integer part of the square root of the batch size, and
  the lines that one \<open>_train_epoch\<close> call hands to the logger are, in batch order,
  those of the batches whose index is a multiple of \<open>log_step\<close>, and none unless the
  verbosity is at least 2. The line of a batch carries the epoch, the batch index times
  the batch size, the number of batches times the batch size, 100 times the batch index
  over the number of batches, and the loss of that batch.
\<close>

theorem progress_line_cadence:
  assumes "0 < loader_batch_size dl" and "self = Trainer_init base dl vdl"
  shows "log_step self = int_sqrt (loader_batch_size dl)
       \<and> logger (snd (train_epoch self epoch st))
           = logger st @
             map (\<lambda>p. format_args self epoch (fst p) (snd p))
               (filter (\<lambda>p. 2 \<le> verbosity self \<and> int_sqrt (loader_batch_size dl) dvd fst p)
                  (List.enumerate 0 (batch_losses
                     (train_trace self (enter_train self (model st)) (batches dl)))))
       \<and> (\<forall>i l. format_args self epoch i l =
             \<lparr>line_epoch = epoch,
              line_done = i * loader_batch_size dl,
              line_total = length (batches dl) * loader_batch_size dl,
              line_percent = 100 * real i / real (length (batches dl)),
              line_loss = l\<rparr>)"
proof -
  have ls: "log_step self = int_sqrt (loader_batch_size dl)"
    and dl: "data_loader self = dl" and vb: "verbosity self = verbosity base"
    using assms(2) by (simp_all add: Trainer_init_def)
  have pos: "log_step self \<noteq> 0"
    using int_sqrt_pos [OF assms(1)] ls by simp
  then have "verbosity self < 2 \<or> log_step self \<noteq> 0" by simp
  from train_epoch_logger [OF this, of epoch st]
  have "logger (snd (train_epoch self epoch st))
           = logger st @
             map (\<lambda>p. format_args self epoch (fst p) (snd p))
               (filter (\<lambda>p. 2 \<le> verbosity self \<and> int_sqrt (loader_batch_size dl) dvd fst p)
                  (List.enumerate 0 (batch_losses
                     (train_trace self (enter_train self (model st)) (batches dl)))))"
    by (simp add: emitted_def ls dl vb mod_eq_0_iff_dvd)
  moreover have "\<forall>i l. format_args self epoch i l =
             \<lparr>line_epoch = epoch,
              line_done = i * loader_batch_size dl,
              line_total = length (batches dl) * loader_batch_size dl,
              line_percent = 100 * real i / real (length (batches dl)),
              line_loss = l\<rparr>"
    by (simp add: format_args_def dl len_loader_def)
  ultimately show ?thesis using ls by simp
qed

theorem progress_line_cadence_witness:
  "0 < loader_batch_size demo_loader
   \<and> log_step demo_trainer = 2
   \<and> logger (snd (train_epoch demo_trainer 1 demo_state))
       = [\<lparr>line_epoch = 1, line_done = 0, line_total = 12, line_percent = 0, line_loss = 1\<rparr>,
          \<lparr>line_epoch = 1, line_done = 8, line_total = 12, line_percent = 200 / 3, line_loss = 3\<rparr>]"
proof -
  have p: "0 < loader_batch_size demo_loader" by (simp add: demo_defs)
  have tr: "batch_losses (train_trace demo_trainer (enter_train demo_trainer (model demo_state))
      (batches demo_loader)) = [1, 2, 3]"
    by (simp add: demo_defs demo_trainer_def enter_train_def optimize_batch_def to_variable_def batch_losses_def)
  have sq: "int_sqrt (loader_batch_size demo_loader) = 2"
    by (simp add: demo_defs)
  have en: "List.enumerate 0 [1, 2, 3 :: real] = [(0, 1), (1, 2), (2, 3)]"
    by (simp add: enumerate_eq_zip upt_rec)
  have vb: "verbosity demo_trainer = 2"
    by (simp add: demo_defs demo_trainer_def)
  from progress_line_cadence [OF p demo_trainer_def, of 1 demo_state]
  show ?thesis
    unfolding tr sq en vb using p
    by (simp add: demo_base_def demo_loader_def demo_state_def TrainerState_init_def)
qed

lemma appends_append [simp]: "appends lg (a @ b) = appends lg a @ appends lg b"
  by (simp add: appends_def)

lemma appended_xs_append [simp]: "appended_xs lg (a @ b) = appended_xs lg a @ appended_xs lg b"
  by (simp add: appended_xs_def)

lemma appended_xs_Nil [simp]: "appended_xs lg [] = []"
  by (simp add: appended_xs_def appends_def)

lemma chart_grows_same:
  "viz st' = viz st \<Longrightarrow> plt_train_loss st' = plt_train_loss st \<Longrightarrow> chart_grows lo hi st st'"
  by (simp add: chart_grows_def appends_def)

lemma chart_grows_trans:
  assumes "chart_grows lo m1 st st1" and "chart_grows m2 hi st1 st2"
    and "m1 \<le> m2" and "lo \<le> m2" and "m1 \<le> hi"
  shows "chart_grows lo hi st st2"
proof -
  let ?T = "[''Training Loss'']"
  from assms(1) obtain n1 where 1: "viz st1 = viz st @ n1"
    "sorted_wrt (<) (appended_xs ?T n1)"
    "\<forall>x\<in>set (appended_xs ?T n1). lo \<le> x \<and> x < m1"
    "\<forall>c\<in>set (appends ?T n1). \<exists>w. line_win c = Some w \<and> plt_train_loss st1 = Some w"
    "\<forall>w. plt_train_loss st = Some w \<longrightarrow> plt_train_loss st1 = Some w"
    unfolding chart_grows_def by blast
  from assms(2) obtain n2 where 2: "viz st2 = viz st1 @ n2"
    "sorted_wrt (<) (appended_xs ?T n2)"
    "\<forall>x\<in>set (appended_xs ?T n2). m2 \<le> x \<and> x < hi"
    "\<forall>c\<in>set (appends ?T n2). \<exists>w. line_win c = Some w \<and> plt_train_loss st2 = Some w"
    "\<forall>w. plt_train_loss st1 = Some w \<longrightarrow> plt_train_loss st2 = Some w"
    unfolding chart_grows_def by blast
  have v: "viz st2 = viz st @ (n1 @ n2)" using 1(1) 2(1) by simp
  have s: "sorted_wrt (<) (appended_xs ?T (n1 @ n2))"
    using 1(2,3) 2(2,3) assms(3) by (fastforce simp: sorted_wrt_append)
  have b: "\<forall>x\<in>set (appended_xs ?T (n1 @ n2)). lo \<le> x \<and> x < hi"
    using 1(3) 2(3) assms(4,5) by fastforce
  have w: "\<forall>c\<in>set (appends ?T (n1 @ n2)). \<exists>w. line_win c = Some w \<and> plt_train_loss st2 = Some w"
    using 1(4) 2(4,5) by fastforce
  have k: "\<forall>w. plt_train_loss st = Some w \<longrightarrow> plt_train_loss st2 = Some w"
    using 1(5) 2(5) by blast
  show ?thesis
    unfolding chart_grows_def using v s b w k by blast
qed

lemma plot_train_loss_grows:
  "chart_grows (int i + (epoch - 1) * int (len_loader (data_loader self)))
     (int (Suc i) + (epoch - 1) * int (len_loader (data_loader self)))
     st (plot_train_loss self epoch i l st)"
  by (auto simp: chart_grows_def plot_train_loss_def viz_call_def appended_xs_def appends_def
        split: option.splits)

lemma plot_val_loss_grows:
  "plot_val_loss self epoch s n st = Inr st' \<Longrightarrow> chart_grows lo hi st st'"
  by (auto simp: chart_grows_def plot_val_loss_def viz_call_def py_div_def appended_xs_def
        appends_def split: option.splits if_splits)

lemma valid_epoch_grows: "chart_grows lo hi st (snd (valid_epoch self epoch st))"
proof -
  let ?st0 = "st\<lparr>model := enter_eval (model st)\<rparr>"
  have 0: "chart_grows lo lo st ?st0"
    by (rule chart_grows_same) simp_all
  have "chart_grows lo hi ?st0 (snd (valid_epoch self epoch st))"
  proof (cases "valid_data_loader self")
    case None
    then show ?thesis by (simp add: valid_epoch_def chart_grows_same)
  next
    case (Some vdl)
    then show ?thesis
      by (auto simp: valid_epoch_def Let_def chart_grows_same
            split: prod.splits sum.splits intro: plot_val_loss_grows)
  qed
  then have "chart_grows lo hi ?st0 (snd (valid_epoch self epoch st))" .
  moreover have "chart_grows lo hi st ?st0"
    by (rule chart_grows_same) simp_all
  ultimately show ?thesis
    unfolding chart_grows_def by (auto simp: appends_def)
qed


lemma train_loop_grows:
  "chart_grows (int i + (epoch - 1) * int (len_loader (data_loader self)))
     (int (i + length bs) + (epoch - 1) * int (len_loader (data_loader self)))
     st (snd (train_loop self epoch i bs totals st))"
proof (induction bs arbitrary: i totals st)
  case Nil
  show ?case by (simp add: chart_grows_same)
next
  case (Cons dt rest)
  let ?c = "(epoch - 1) * int (len_loader (data_loader self))"
  obtain out target l m where ob: "optimize_batch self (model st) dt = (out, target, l, m)"
    by (cases "optimize_batch self (model st) dt") auto
  let ?st1 = "st\<lparr>model := m\<rparr>"
  have 1: "chart_grows (int i + ?c) (int i + ?c) st ?st1"
    by (rule chart_grows_same) simp_all
  show ?case
  proof (cases "log_progress self epoch i l ?st1")
    case (Inl e)
    then have "snd (train_loop self epoch i (dt # rest) totals st) = ?st1"
      by (simp add: ob Let_def)
    then show ?thesis by (simp add: chart_grows_same)
  next
    case (Inr st2)
    then have "viz st2 = viz ?st1" "plt_train_loss st2 = plt_train_loss ?st1"
      by (auto simp: log_progress_def split: if_splits)
    then have 2: "chart_grows (int i + ?c) (int i + ?c) ?st1 st2"
      by (rule chart_grows_same)
    let ?st3 = "plot_train_loss self epoch i l st2"
    let ?tt = "(fst totals + l, map2 (+) (snd totals) (eval_metrics self out target))"
    have 3: "chart_grows (int i + ?c) (int (Suc i) + ?c) st2 ?st3"
      by (rule plot_train_loss_grows)
    have 4: "chart_grows (int (Suc i) + ?c) (int (Suc i + length rest) + ?c)
        ?st3 (snd (train_loop self epoch (Suc i) rest ?tt ?st3))"
      by (rule Cons.IH)
    have eq: "train_loop self epoch i (dt # rest) totals st
        = train_loop self epoch (Suc i) rest ?tt ?st3"
      by (simp add: ob Inr Let_def)
    have "chart_grows (int i + ?c) (int i + ?c) st st2"
      by (rule chart_grows_trans [OF 1 2]) simp_all
    then have "chart_grows (int i + ?c) (int (Suc i) + ?c) st ?st3"
      by (rule chart_grows_trans [OF _ 3]) simp_all
    then have "chart_grows (int i + ?c) (int (Suc i + length rest) + ?c) st
        (snd (train_loop self epoch (Suc i) rest ?tt ?st3))"
      by (rule chart_grows_trans [OF _ 4]) simp_all
    then show ?thesis
      unfolding eq by simp
  qed
qed

lemma train_epoch_grows:
  "chart_grows ((epoch - 1) * int (len_loader (data_loader self)))
     (epoch * int (len_loader (data_loader self))) st (snd (train_epoch self epoch st))"
proof -
  let ?L = "int (len_loader (data_loader self))"
  let ?bs = "batches (data_loader self)"
  let ?st1 = "st\<lparr>model := enter_train self (model st)\<rparr>"
  have hi: "int (0 + length ?bs) + (epoch - 1) * ?L = epoch * ?L"
    by (simp add: len_loader_def algebra_simps)
  have lo: "(epoch - 1) * ?L \<le> epoch * ?L"
    by (simp add: mult_right_mono)
  have 1: "chart_grows ((epoch - 1) * ?L) ((epoch - 1) * ?L) st ?st1"
    by (rule chart_grows_same) simp_all
  obtain r st2 where tl: "train_loop self epoch 0 ?bs (0, replicate (length (metrics self)) 0) ?st1 = (r, st2)"
    by (cases "train_loop self epoch 0 ?bs (0, replicate (length (metrics self)) 0) ?st1") auto
  have "chart_grows (int 0 + (epoch - 1) * ?L) (int (0 + length ?bs) + (epoch - 1) * ?L) ?st1 st2"
    using train_loop_grows [of 0 epoch self ?bs ?st1 "(0, replicate (length (metrics self)) 0)"]
    by (simp only: tl snd_conv)
  then have 2: "chart_grows ((epoch - 1) * ?L) (epoch * ?L) ?st1 st2"
    unfolding hi by simp
  have 12: "chart_grows ((epoch - 1) * ?L) (epoch * ?L) st st2"
    using lo by (intro chart_grows_trans [OF 1 2]) simp_all
  have 3: "chart_grows (epoch * ?L) (epoch * ?L) st2 (snd (valid_epoch self epoch st2))"
    by (rule valid_epoch_grows)
  have 123: "chart_grows ((epoch - 1) * ?L) (epoch * ?L) st (snd (valid_epoch self epoch st2))"
    using lo by (intro chart_grows_trans [OF 12 3]) simp_all
  show ?thesis
  proof (cases r)
    case (Inl e)
    with tl have "train_epoch self epoch st = (Inl e, st2)"
      by (simp add: train_epoch_Inl)
    with 12 show ?thesis by simp
  next
    case (Inr tot)
    obtain s1 v1 where tot: "tot = (s1, v1)" by (cases tot) auto
    show ?thesis
    proof (cases "?bs = []")
      case True
      then show ?thesis using 1 lo
        by (simp add: train_epoch_empty len_loader_def)
    next
      case False
      note red = train_epoch_after_loop [OF tl [unfolded Inr tot] False]
      show ?thesis
      proof (cases "valid self")
        case False
        with red 12 show ?thesis by simp
      next
        case True
        obtain vr st3 where ve: "valid_epoch self epoch st2 = (vr, st3)"
          by (cases "valid_epoch self epoch st2") auto
        with 123 have "chart_grows ((epoch - 1) * ?L) (epoch * ?L) st st3" by simp
        then show ?thesis
          using True red ve by (cases vr) simp_all
      qed
    qed
  qed
qed

lemma train_epochs_Cons:
  "train_epochs self (e # es) st = train_epochs self es (snd (train_epoch self e st))"
  by (simp add: train_epochs_def)

lemma train_epochs_grows:
  "es \<noteq> [] \<Longrightarrow> sorted_wrt (<) es \<Longrightarrow>
   chart_grows ((hd es - 1) * int (len_loader (data_loader self)))
     (last es * int (len_loader (data_loader self))) st (train_epochs self es st)"
proof (induction es arbitrary: st)
  case Nil
  then show ?case by simp
next
  case (Cons e es)
  let ?L = "int (len_loader (data_loader self))"
  let ?st1 = "snd (train_epoch self e st)"
  have 1: "chart_grows ((e - 1) * ?L) (e * ?L) st ?st1"
    by (rule train_epoch_grows)
  show ?case
  proof (cases "es = []")
    case True
    with 1 show ?thesis by (simp add: train_epochs_def)
  next
    case False
    have sorted: "sorted_wrt (<) es" and lt: "\<forall>x\<in>set es. e < x"
      using Cons.prems(2) by simp_all
    have 2: "chart_grows ((hd es - 1) * ?L) (last es * ?L) ?st1 (train_epochs self es ?st1)"
      using False sorted by (rule Cons.IH)
    have h: "e \<le> hd es - 1" using lt False by (simp add: order_less_le)
    have l: "e \<le> last es" using lt False by (simp add: order_less_le)
    have a: "e * ?L \<le> (hd es - 1) * ?L" using h by (simp add: mult_right_mono)
    have b: "(e - 1) * ?L \<le> (hd es - 1) * ?L" using h by (simp add: mult_right_mono)
    have c: "e * ?L \<le> last es * ?L" using l by (simp add: mult_right_mono)
    have "chart_grows ((e - 1) * ?L) (last es * ?L) st (train_epochs self es ?st1)"
      by (rule chart_grows_trans [OF 1 2 a b c])
    then show ?thesis
      using False by (simp add: train_epochs_Cons)
  qed
qed

text \<open>
  Claim C6. Over successive \<open>_train_epoch\<close> calls on one trainer, for epoch indices
  that increase from call to call: the sink receives further calls, and the
  x-coordinates that these calls append to the training-loss chart are strictly
  increasing in call order, across the epoch boundaries as well; all of them go to the
  one window that the trainer holds as \<open>plt_train_loss\<close>; and none of them falls
  below (first epoch - 1) times the number of batches, or reaches the last epoch times
  the number of batches.
\<close>

theorem train_chart_xs_increasing:
  assumes "sorted_wrt (<) es"
  shows "\<exists>new. viz (train_epochs self es st) = viz st @ new
           \<and> sorted_wrt (<) (appended_xs [''Training Loss''] new)
           \<and> (\<forall>c\<in>set (appends [''Training Loss''] new).
                 \<exists>w. line_win c = Some w \<and> plt_train_loss (train_epochs self es st) = Some w)
           \<and> (es \<noteq> [] \<longrightarrow>
                (\<forall>x\<in>set (appended_xs [''Training Loss''] new).
                    (hd es - 1) * int (len_loader (data_loader self)) \<le> x
                    \<and> x < last es * int (len_loader (data_loader self))))"
proof (cases "es = []")
  case True
  then show ?thesis by (simp add: train_epochs_def appends_def)
next
  case False
  from train_epochs_grows [OF False assms, of self st] show ?thesis
    unfolding chart_grows_def using False by blast
qed

theorem train_chart_xs_increasing_witness:
  "sorted_wrt (<) [1, 2 :: int]
   \<and> appended_xs [''Training Loss''] (viz (train_epochs demo_valid_trainer [1, 2] demo_state))
       = [1, 2, 3, 4, 5]
   \<and> sorted_wrt (<) (appended_xs [''Training Loss'']
        (viz (train_epochs demo_valid_trainer [1, 2] demo_state)))"
proof -
  have s: "sorted_wrt (<) [1, 2 :: int]" by simp
  have v0: "viz demo_state = []" by (simp add: demo_defs)
  have xs: "appended_xs [''Training Loss''] (viz (train_epochs demo_valid_trainer [1, 2] demo_state))
       = [1, 2, 3, 4, 5]"
    by (simp add: train_epochs_def demo_defs demo_valid_trainer_def demo_valid_loader_def method_defs appended_xs_def appends_def)
  from train_chart_xs_increasing [OF s, of demo_valid_trainer demo_state]
  have "sorted_wrt (<) (appended_xs [''Training Loss'']
        (viz (train_epochs demo_valid_trainer [1, 2] demo_state)))"
    unfolding v0 by auto
  with s xs show ?thesis by simp
qed

lemma valid_epoch_viz:
  assumes "visualize self" and "valid_data_loader self = Some vdl" and "batches vdl \<noteq> []"
  shows "viz (snd (valid_epoch self epoch st)) = viz st @
           [case plt_val_loss st of
              None \<Rightarrow> \<lparr>line_X = None,
                         line_Y = [mean (batch_losses (valid_trace self (enter_eval (model st)) (batches vdl)))],
                         line_win = None, line_update = None,
                         line_legend = [''Validation Loss'']\<rparr>
            | Some w \<Rightarrow> \<lparr>line_X = Some [epoch - 1],
                         line_Y = [mean (batch_losses (valid_trace self (enter_eval (model st)) (batches vdl)))],
                         line_win = Some w, line_update = Some ''append'',
                         line_legend = [''Validation Loss'']\<rparr>]"
    and "plt_val_loss (snd (valid_epoch self epoch st))
           = Some (case plt_val_loss st of None \<Rightarrow> length (viz st) | Some w \<Rightarrow> w)"
proof -
  let ?tr = "valid_trace self (enter_eval (model st)) (batches vdl)"
  have vl: "valid_loop self (enter_eval (model st)) (batches vdl)
              (0, replicate (length (metrics self)) 0)
            = (sum_list (batch_losses ?tr),
               map (\<lambda>metric. sum_list (metric_values self ?tr metric)) (metrics self))"
    unfolding zeros_as_map valid_loop_totals by simp
  have n: "len_loader vdl \<noteq> 0" using assms(3) by (simp add: len_loader_def)
  have m: "sum_list (batch_losses ?tr) / real (len_loader vdl) = mean (batch_losses ?tr)"
    by (simp add: mean_def len_loader_def)
  show "viz (snd (valid_epoch self epoch st)) = viz st @
           [case plt_val_loss st of
              None \<Rightarrow> \<lparr>line_X = None, line_Y = [mean (batch_losses ?tr)],
                         line_win = None, line_update = None,
                         line_legend = [''Validation Loss'']\<rparr>
            | Some w \<Rightarrow> \<lparr>line_X = Some [epoch - 1], line_Y = [mean (batch_losses ?tr)],
                         line_win = Some w, line_update = Some ''append'',
                         line_legend = [''Validation Loss'']\<rparr>]"
    using assms(1,2) n vl m
    by (simp add: valid_epoch_def plot_val_loss_def py_div_def viz_call_def Let_def
          split: option.splits)
  show "plt_val_loss (snd (valid_epoch self epoch st))
           = Some (case plt_val_loss st of None \<Rightarrow> length (viz st) | Some w \<Rightarrow> w)"
    using assms(1,2) n vl
    by (simp add: valid_epoch_def plot_val_loss_def py_div_def viz_call_def Let_def
          split: option.splits)
qed

text \<open>
  Claim C7. The claim is that every \<open>_valid_epoch\<close> call sends the chart a point at
  x = epoch - 1. On a fresh trainer, the call for epoch 5 makes one sink call, and that
  call passes no \<open>X\<close> at all (the series is created from the y-value alone): the point
  is not sent at x = 4.
\<close>

theorem valid_chart_first_call_counterexample:
  "map line_X (viz (snd (valid_epoch demo_valid_trainer 5 demo_state))) = [None]
   \<and> map line_X (viz (snd (valid_epoch demo_valid_trainer 5 demo_state))) \<noteq> [Some [5 - 1]]
   \<and> map line_Y (viz (snd (valid_epoch demo_valid_trainer 5 demo_state))) = [[5]]"
  by (simp add: demo_defs demo_valid_trainer_def demo_valid_loader_def method_defs)

text \<open>
  Claim C7, as the code has it. With visualization on and a validation loader that has
  a batch, one \<open>_valid_epoch\<close> call makes exactly one call on the sink, with the
  legend of the validation-loss chart and the mean validation loss of the epoch as its
  y-value, which is also the \<open>val_loss\<close> of the summary. While the trainer holds no
  validation window, the call creates the series: it passes no x-coordinate, no
  window and no update mode, and the trainer keeps the handle that the sink returns.
  Once the trainer holds a window, the call appends to it the point with
  x = epoch - 1.
\<close>

theorem valid_chart_one_call:
  assumes "visualize self" and "valid_data_loader self = Some vdl" and "batches vdl \<noteq> []"
  shows "viz (snd (valid_epoch self epoch st)) = viz st @
           [case plt_val_loss st of
              None \<Rightarrow> \<lparr>line_X = None,
                         line_Y = [mean (batch_losses (valid_trace self (enter_eval (model st)) (batches vdl)))],
                         line_win = None, line_update = None,
                         line_legend = [''Validation Loss'']\<rparr>
            | Some w \<Rightarrow> \<lparr>line_X = Some [epoch - 1],
                         line_Y = [mean (batch_losses (valid_trace self (enter_eval (model st)) (batches vdl)))],
                         line_win = Some w, line_update = Some ''append'',
                         line_legend = [''Validation Loss'']\<rparr>]
       \<and> plt_val_loss (snd (valid_epoch self epoch st))
           = Some (case plt_val_loss st of None \<Rightarrow> length (viz st) | Some w \<Rightarrow> w)
       \<and> (\<exists>lg. fst (valid_epoch self epoch st) = Inr lg
             \<and> dict_get lg ''val_loss''
                 = Some (Float (mean (batch_losses
                     (valid_trace self (enter_eval (model st)) (batches vdl))))))"
proof -
  have "\<exists>lg. fst (valid_epoch self epoch st) = Inr lg
      \<and> dict_get lg ''val_loss'' = Some (Float (mean (batch_losses
            (valid_trace self (enter_eval (model st)) (batches vdl)))))"
    using assms(2,3) by (simp add: valid_epoch_fst dict_get_def mean_log_def)
  with valid_epoch_viz [OF assms] show ?thesis by simp
qed

theorem valid_chart_one_call_witness:
  "visualize demo_valid_trainer
   \<and> valid_data_loader demo_valid_trainer = Some demo_valid_loader
   \<and> batches demo_valid_loader \<noteq> []
   \<and> viz (snd (valid_epoch demo_valid_trainer 5 demo_state))
       = [\<lparr>line_X = None, line_Y = [5], line_win = None, line_update = None,
           line_legend = [''Validation Loss'']\<rparr>]
   \<and> viz (snd (valid_epoch demo_valid_trainer 6 (snd (valid_epoch demo_valid_trainer 5 demo_state))))
       = [\<lparr>line_X = None, line_Y = [5], line_win = None, line_update = None,
           line_legend = [''Validation Loss'']\<rparr>,
          \<lparr>line_X = Some [5], line_Y = [5], line_win = Some 0, line_update = Some ''append'',
           line_legend = [''Validation Loss'']\<rparr>]"
proof -
  have a: "visualize demo_valid_trainer"
    and b: "valid_data_loader demo_valid_trainer = Some demo_valid_loader"
    and c: "batches demo_valid_loader \<noteq> []"
    by (simp_all add: demo_defs demo_valid_trainer_def demo_valid_loader_def)
  have y: "mean (batch_losses (valid_trace demo_valid_trainer m (batches demo_valid_loader))) = 5" for m
    by (simp add: demo_defs demo_valid_trainer_def demo_valid_loader_def trace_defs to_variable_def)
  have s0: "viz demo_state = []" "plt_val_loss demo_state = None"
    by (simp_all add: demo_defs)
  note first = valid_chart_one_call [OF a b c, of 5 demo_state, unfolded y s0]
  note second = valid_chart_one_call [OF a b c, of 6 "snd (valid_epoch demo_valid_trainer 5 demo_state)",
      unfolded y]
  from first have v1: "viz (snd (valid_epoch demo_valid_trainer 5 demo_state))
       = [\<lparr>line_X = None, line_Y = [5], line_win = None, line_update = None,
           line_legend = [''Validation Loss'']\<rparr>]"
    and p1: "plt_val_loss (snd (valid_epoch demo_valid_trainer 5 demo_state)) = Some 0"
    by simp_all
  from second have "viz (snd (valid_epoch demo_valid_trainer 6 (snd (valid_epoch demo_valid_trainer 5 demo_state))))
       = [\<lparr>line_X = None, line_Y = [5], line_win = None, line_update = None,
           line_legend = [''Validation Loss'']\<rparr>,
          \<lparr>line_X = Some [5], line_Y = [5], line_win = Some 0, line_update = Some ''append'',
           line_legend = [''Validation Loss'']\<rparr>]"
    unfolding v1 p1 by simp
  with a b c v1 show ?thesis by simp
qed

end
